theory Spec2Isabelle
  imports Complex_Main "HOL-Library.Log_Nat" "HOL-Library.Word"
begin

section \<open>Binary floating point, as far as main.cpp uses it\<close>

text \<open>
  The firmware computes the air quality index in C \<^verbatim>\<open>float\<close> (IEEE binary32), compares
  against \<^verbatim>\<open>double\<close> literals (binary64) and converts the temperature in \<^verbatim>\<open>double\<close>.
  A floating point value is modelled by the rational number it denotes, and every
  operation by the exact operation followed by rounding to nearest, ties to even, at
  24 or 53 bits of precision. The exponent is unbounded: subnormals, infinities and NaN
  are outside the model. The ESP8266 has no floating point unit; its arithmetic is the
  compiler's soft-float library, one correctly rounded operation per C operator.
\<close>

definition rne :: "rat \<Rightarrow> int" where
  \<comment> \<open>round to the nearest integer, ties to the even one\<close>
  "rne x = (let f = \<lfloor>x\<rfloor>; d = x - of_int f in
            if d < 1/2 then f else if 1/2 < d then f + 1 else if even f then f else f + 1)"

definition binade :: "rat \<Rightarrow> int" where
  \<comment> \<open>the exponent \<open>e\<close> with \<open>2\<^sup>e \<le> |x| < 2\<^sup>e\<^sup>+\<^sup>1\<close>, for \<open>x \<noteq> 0\<close>\<close>
  "binade x = (if 1 \<le> \<bar>x\<bar> then bitlen \<lfloor>\<bar>x\<bar>\<rfloor> - 1 else - bitlen (\<lceil>1 / \<bar>x\<bar>\<rceil> - 1))"

definition fround :: "nat \<Rightarrow> rat \<Rightarrow> rat" where
  \<comment> \<open>round \<open>x\<close> to \<open>p\<close> significant bits\<close>
  "fround p x = (if x = 0 then 0 else
      let u = 2 powi (binade x - (int p - 1)) in of_int (rne (x / u)) * u)"

definition f32 :: "rat \<Rightarrow> rat" where "f32 = fround 24"
definition f64 :: "rat \<Rightarrow> rat" where "f64 = fround 53"

definition float_of_int :: "int \<Rightarrow> rat" where
  \<comment> \<open>\<^verbatim>\<open>float(i)\<close>, and the implicit conversion of an \<^verbatim>\<open>int\<close> operand or argument\<close>
  "float_of_int i = f32 (of_int i)"

definition FLT :: "rat \<Rightarrow> rat" where
  \<comment> \<open>a \<^verbatim>\<open>double\<close> literal passed to a \<^verbatim>\<open>float\<close> parameter\<close>
  "FLT x = f32 (f64 x)"

definition DBL :: "rat \<Rightarrow> rat" where
  \<comment> \<open>a \<^verbatim>\<open>double\<close> literal\<close>
  "DBL x = f64 x"

definition fadd :: "rat \<Rightarrow> rat \<Rightarrow> rat" where "fadd x y = f32 (x + y)"
definition fsub :: "rat \<Rightarrow> rat \<Rightarrow> rat" where "fsub x y = f32 (x - y)"
definition fmul :: "rat \<Rightarrow> rat \<Rightarrow> rat" where "fmul x y = f32 (x * y)"
definition fdiv :: "rat \<Rightarrow> rat \<Rightarrow> rat" where "fdiv x y = f32 (x / y)"

definition int_of_float :: "rat \<Rightarrow> int" where
  \<comment> \<open>C conversion of a floating value to \<^verbatim>\<open>int\<close>: the fraction is discarded\<close>
  "int_of_float x = (if 0 \<le> x then \<lfloor>x\<rfloor> else \<lceil>x\<rceil>)"

definition int_range :: "int \<Rightarrow> bool" where
  \<comment> \<open>the values of the 32-bit \<^verbatim>\<open>int\<close> and \<^verbatim>\<open>long\<close> of the ESP8266\<close>
  "int_range i = (- 2147483648 \<le> i \<and> i \<le> 2147483647)"


section \<open>The AQI converter\<close>

text \<open>
  \<^verbatim>\<open>round(a)\<close> is Arduino's
  \<^verbatim>\<open>((x)>=0?(long)((x)+0.5):(long)((x)-0.5))\<close>, which agrees with the C library's
  \<^verbatim>\<open>round\<close>: halves go away from zero. The sum with \<^verbatim>\<open>0.5\<close> is formed in
  \<^verbatim>\<open>double\<close>, where it is exact for every \<^verbatim>\<open>float\<close> that matters here. The result is
  the mathematical integer; that it fits the \<^verbatim>\<open>int\<close> the function returns is a theorem
  below (\<open>int_range\<close>), not an assumption.
\<close>

definition round_away :: "rat \<Rightarrow> int" where
  "round_away x = (if 0 \<le> x then \<lfloor>x + 1/2\<rfloor> else \<lceil>x - 1/2\<rceil>)"

text \<open>
  \<^verbatim>\<open>int linear(int AQIhigh, int AQIlow, float Conchigh, float Conclow, float Concentration)\<close>
  \<^verbatim>\<open>{ float a = ((Concentration - Conclow) / (Conchigh - Conclow)) * (AQIhigh - AQIlow) + AQIlow;\<close>
  \<^verbatim>\<open>  return round(a); }\<close>
\<close>

definition linear_aqi :: "int \<Rightarrow> int \<Rightarrow> rat \<Rightarrow> rat \<Rightarrow> rat \<Rightarrow> int" where
  "linear_aqi AQIhigh AQIlow Conchigh Conclow Concentration =
     (let a = fadd (fmul (fdiv (fsub Concentration Conclow) (fsub Conchigh Conclow))
                         (float_of_int (AQIhigh - AQIlow)))
                   (float_of_int AQIlow)
      in round_away a)"

text \<open>
  \<open>pm25toAQI_float\<close> is not a function of main.cpp: it is the body of
  \<^verbatim>\<open>pm25toAQI\<close> taken from the value of \<^verbatim>\<open>float(pm25)\<close> on, so that the bands can be
  studied on every \<^verbatim>\<open>float\<close>. The converter of the source is \<open>pm25toAQI\<close> below, on
  \<^verbatim>\<open>int\<close>; what a caller gets for a concentration with a fraction is \<open>pm25toAQI_call\<close>.
  The body:
  \<^verbatim>\<open>float c = (floor(10 * float(pm25))) / 10;\<close> followed by the chain of eight bands.
  The comparisons are against \<^verbatim>\<open>double\<close> literals, the breakpoints handed to
  \<^verbatim>\<open>linear\<close> are converted to \<^verbatim>\<open>float\<close>. \<^verbatim>\<open>floor\<close> yields the integer below its
  argument, which both a \<^verbatim>\<open>float\<close> and a \<^verbatim>\<open>double\<close> hold exactly; the quotient by 10 is
  rounded to \<^verbatim>\<open>float\<close>. \<open>trunc1\<close> names the truncated value \<^verbatim>\<open>c\<close> on its own.
\<close>

definition trunc1 :: "rat \<Rightarrow> rat" where
  "trunc1 x = fdiv (of_int \<lfloor>fmul (float_of_int 10) x\<rfloor>) (float_of_int 10)"

definition pm25toAQI_float :: "rat \<Rightarrow> int" where
  "pm25toAQI_float x =
     (let c = fdiv (of_int \<lfloor>fmul (float_of_int 10) x\<rfloor>) (float_of_int 10) in
      if float_of_int 0 \<le> c \<and> c < DBL 12.1 then
        linear_aqi 50 0 (float_of_int 12) (float_of_int 0) c
      else if DBL 12.1 \<le> c \<and> c < DBL 35.5 then linear_aqi 100 51 (FLT 35.4) (FLT 12.1) c
      else if DBL 35.5 \<le> c \<and> c < DBL 55.5 then linear_aqi 150 101 (FLT 55.4) (FLT 35.5) c
      else if DBL 55.5 \<le> c \<and> c < DBL 150.5 then linear_aqi 200 151 (FLT 150.4) (FLT 55.5) c
      else if DBL 150.5 \<le> c \<and> c < DBL 250.5 then linear_aqi 300 201 (FLT 250.4) (FLT 150.5) c
      else if DBL 250.5 \<le> c \<and> c < DBL 350.5 then linear_aqi 400 301 (FLT 350.4) (FLT 250.5) c
      else if DBL 350.5 \<le> c \<and> c < DBL 500.5 then linear_aqi 500 401 (FLT 500.4) (FLT 350.5) c
      else linear_aqi 1000 501 (FLT 1000.4) (FLT 500.5) c)"

text \<open>\<^verbatim>\<open>int pm25toAQI(int pm25)\<close>: the parameter is an \<^verbatim>\<open>int\<close>.\<close>

definition pm25toAQI :: "int \<Rightarrow> int" where
  "pm25toAQI pm25 = pm25toAQI_float (float_of_int pm25)"

text \<open>
  A call \<^verbatim>\<open>pm25toAQI(x)\<close> with a floating argument: C++ converts the argument to the
  \<^verbatim>\<open>int\<close> parameter first.
\<close>

definition pm25toAQI_call :: "rat \<Rightarrow> int" where
  "pm25toAQI_call x = pm25toAQI (int_of_float x)"

subsection \<open>The breakpoint table of the specification\<close>

text \<open>
  The specification describes the converter as a table of eight bands
  (index-low, index-high, conc-low, conc-high), taken in order, the first match winning,
  each band half-open up to the next band's lower concentration, applied to the value
  truncated to one decimal place. \<open>aqi_table\<close> follows these words; it is compared with
  the code below.
\<close>

definition breakpoints :: "(int \<times> int \<times> rat \<times> rat) list" where
  "breakpoints =
     [(0, 50, 0, 12), (51, 100, 12.1, 35.4), (101, 150, 35.5, 55.4), (151, 200, 55.5, 150.4),
      (201, 300, 150.5, 250.4), (301, 400, 250.5, 350.4), (401, 500, 350.5, 500.4),
      (501, 1000, 500.5, 1000.4)]"

fun classify :: "(int \<times> int \<times> rat \<times> rat) list \<Rightarrow> rat \<Rightarrow> int \<times> int \<times> rat \<times> rat" where
  "classify [] c = (0, 0, 0, 0)"
| "classify [b] c = b"
| "classify ((il, ih, cl, ch) # (il', ih', cl', ch') # bs) c =
     (if DBL cl \<le> c \<and> c < DBL cl' then (il, ih, cl, ch)
      else classify ((il', ih', cl', ch') # bs) c)"

definition aqi_table :: "rat \<Rightarrow> int" where
  "aqi_table x =
     (let c = trunc1 x; (il, ih, cl, ch) = classify breakpoints c
      in linear_aqi ih il (FLT ch) (FLT cl) c)"


section \<open>Strings\<close>

text \<open>
  Arduino's \<^verbatim>\<open>String(int)\<close> and \<^verbatim>\<open>String(n, HEX)\<close> print in base 10 and in base 16
  with lowercase digits; \<^verbatim>\<open>s.toCharArray(buf, n)\<close> copies at most \<open>n - 1\<close>
  characters.
\<close>

definition digit_char :: "nat \<Rightarrow> char" where
  "digit_char d = ''0123456789abcdef'' ! d"

function digits_of :: "nat \<Rightarrow> nat \<Rightarrow> string" where
  "digits_of b n =
     (if n < b \<or> b < 2 then [digit_char n] else digits_of b (n div b) @ [digit_char (n mod b)])"
  by pat_completeness auto
termination
  by (relation "measure snd") auto

declare digits_of.simps [simp del]

definition String_int :: "int \<Rightarrow> string" where
  "String_int i = (if i < 0 then CHR ''-'' # digits_of 10 (nat (- i)) else digits_of 10 (nat i))"

definition String_hex :: "nat \<Rightarrow> string" where
  "String_hex n = digits_of 16 n"

definition toCharArray :: "string \<Rightarrow> nat \<Rightarrow> string" where
  "toCharArray s bufsize = take (bufsize - 1) s"

definition is_lower_hex :: "string \<Rightarrow> bool" where
  "is_lower_hex s = (s \<noteq> [] \<and> list_all (\<lambda>c. c \<in> set ''0123456789abcdef'') s)"


section \<open>The device: settings, globals, collaborators\<close>

text \<open>
  The five booleans at the head of main.cpp are edited by the user before the build
  (\<^verbatim>\<open>// Set sensors that you do not use to false\<close>); \<^verbatim>\<open>mqtt_topic_root\<close> comes from
  Settings.h, which is not part of the sources. Arduino's \<^verbatim>\<open>String(float)\<close> (two
  decimals, through \<^verbatim>\<open>dtostrf\<close>) is a library routine and is taken as a parameter.
\<close>

record settings =
  hasCO2 :: bool
  hasPM :: bool
  hasSHT :: bool
  connectWIFI :: bool
  sendMQTT :: bool
  mqtt_topic_root :: string
  String_float :: "rat \<Rightarrow> string"

text \<open>
  What is observable of a run: the calls to the sensor drivers, to the display and to the
  MQTT client, and the blocking delays, in order. A publish records the topic, the
  payload, the retained flag and what \<^verbatim>\<open>client.publish\<close> returned. Output on the
  serial console is left out.
\<close>

datatype event =
    Connect string bool
  | Delay nat
  | ClientLoop
  | ReadCO2
  | ReadPM
  | ReadSHT
  | Lcd string string string string string
  | Publish string string bool bool

text \<open>The globals of main.cpp, and the trace of events so far.\<close>

record state =
  Temperature :: rat
  AQI :: int
  CO2 :: int
  Humidity :: int
  PM2 :: int
  ln1 :: string
  ln2 :: string
  ln3 :: string
  ln4 :: string
  ln5 :: string
  topic_prefix :: string
  msLAST_METRIC :: "32 word"
  msLAST_SAMPLE :: "32 word"
  deviceid :: string
  trace :: "event list"

text \<open>
  The driver calls \<^verbatim>\<open>ag.getCO2_Raw()\<close>, \<^verbatim>\<open>ag.getPM2_Raw()\<close> and
  \<^verbatim>\<open>ag.periodicFetchData()\<close> return a plain \<^verbatim>\<open>int\<close> or struct. A read that fails or
  times out inside the driver still hands back a value of that type; \<open>Failed v\<close> is such a
  read, \<open>Got v\<close> a successful one. main.cpp sees \<open>raw_value\<close> only.
\<close>

datatype 'a raw = Got 'a | Failed 'a

fun raw_value :: "'a raw \<Rightarrow> 'a" where
  "raw_value (Got v) = v"
| "raw_value (Failed v) = v"

text \<open>
  What the environment supplies during one pass of \<^verbatim>\<open>loop()\<close>: whether the MQTT client
  is connected on entry, the outcomes of the connection attempts (the raw random number
  drawn for the client identifier and what \<^verbatim>\<open>client.connect\<close> returns), the four
  readings of \<^verbatim>\<open>millis()\<close>, the sensor readings and what \<^verbatim>\<open>client.publish\<close> returns
  for a topic.
\<close>

record inputs =
  link_up :: bool
  attempts :: "(nat \<times> bool) list"
  ms_sample_check :: "32 word"
  ms_sample_set :: "32 word"
  ms_publish_check :: "32 word"
  ms_publish_set :: "32 word"
  co2_read :: "int raw"
  pm_read :: "int raw"
  sht_read :: "(rat \<times> int) raw"
  publish_result :: "string \<Rightarrow> bool"

definition msSAMPLE_INTERVAL :: "32 word" where "msSAMPLE_INTERVAL = 2500"
definition msPUBLISH_INTERVAL :: "32 word" where "msPUBLISH_INTERVAL = 30000"

definition emit :: "event \<Rightarrow> state \<Rightarrow> state" where
  "emit ev st = st\<lparr>trace := trace st @ [ev]\<rparr>"

definition lcd :: "string \<Rightarrow> string \<Rightarrow> string \<Rightarrow> string \<Rightarrow> string \<Rightarrow> state \<Rightarrow> state" where
  "lcd l1 l2 l3 l4 l5 st = emit (Lcd l1 l2 l3 l4 l5) st"

subsection \<open>setup()\<close>

text \<open>
  The globals start zero-initialised. \<^verbatim>\<open>setup()\<close> stores the chip identifier in
  hexadecimal and shows it; the initialisation of the sensors and of the MQTT client
  touches the collaborators only. \<open>setup_device\<close> is the part of \<^verbatim>\<open>setup()\<close> that
  writes the globals, with the splash screen of the device; the whole function, with its
  delays and the WiFi bring-up, is \<open>setup_arduino\<close> below. The two leave the same
  globals and differ in the trace only (\<open>setup_arduino_globals\<close>).
\<close>

definition initial :: state where
  "initial = \<lparr>Temperature = 0, AQI = 0, CO2 = 0, Humidity = 0, PM2 = 0,
      ln1 = [], ln2 = [], ln3 = [], ln4 = [], ln5 = [], topic_prefix = [],
      msLAST_METRIC = 0, msLAST_SAMPLE = 0, deviceid = [], trace = []\<rparr>"

definition setup_device :: "32 word \<Rightarrow> state" where
  "setup_device chip =
     (let st = initial\<lparr>deviceid := toCharArray (String_hex (unat chip)) 32\<rparr>
      in lcd ''Initializing'' ''Device:'' (deviceid st) [] [] st)"

text \<open>
  The network as \<^verbatim>\<open>setupWiFi()\<close> meets it: the name of the network from Settings.h, the
  answers of \<^verbatim>\<open>WiFi.status() != WL_CONNECTED\<close> at the head of the waiting loop
  (\<open>True\<close> for connected), and the four bytes of \<^verbatim>\<open>WiFi.localIP()\<close>.
\<close>

record network =
  wifi_ssid :: string
  wifi_status :: "bool list"
  local_ip :: "8 word \<times> 8 word \<times> 8 word \<times> 8 word"

text \<open>
  \<^verbatim>\<open>while (WiFi.status() != WL_CONNECTED) { delay(500); Serial.print("."); }\<close>
  The loop has no bound: when the answers supplied run out with the station still
  disconnected it has not returned, \<open>None\<close>.
\<close>

fun wifi_wait :: "bool list \<Rightarrow> state \<Rightarrow> state option" where
  "wifi_wait [] st = None"
| "wifi_wait (up # rest) st = (if up then Some st else wifi_wait rest (emit (Delay 500) st))"

text \<open>
  \<^verbatim>\<open>void setupWiFi() { delay(3000); ...; lcd("Initializing", "WiFi:", wifi_ssid);\<close>
  \<^verbatim>\<open>  WiFi.begin(...); WiFi.mode(WIFI_STA); while (...) {...} randomSeed(micros());\<close>
  \<^verbatim>\<open>  IPAddress ip = WiFi.localIP(); ...\<close>
  \<^verbatim>\<open>  lcd(String(ip[0]) + ".", String(ip[1]) + ".", String(ip[2]) + ".", String(ip[3]));\<close>
  \<^verbatim>\<open>  delay(1000); }\<close>
\<close>

definition setupWiFi :: "network \<Rightarrow> state \<Rightarrow> state option" where
  "setupWiFi net st =
     (let st1 = lcd ''Initializing'' ''WiFi:'' (wifi_ssid net) [] [] (emit (Delay 3000) st)
      in case wifi_wait (wifi_status net) st1 of
           None \<Rightarrow> None
         | Some st2 \<Rightarrow>
             (let (a, b, c, d) = local_ip net
              in Some (emit (Delay 1000)
                   (lcd (String_int (uint a) @ ''.'') (String_int (uint b) @ ''.'')
                        (String_int (uint c) @ ''.'') (String_int (uint d)) [] st2))))"

text \<open>
  \<^verbatim>\<open>void setup() { Serial.begin(9600); delay(2000);\<close>
  \<^verbatim>\<open>  String(ESP.getChipId(), HEX).toCharArray(deviceid, 32); ...; display.init();\<close>
  \<^verbatim>\<open>  lcd("Initializing", "Device:", deviceid);\<close>
  \<^verbatim>\<open>  if (hasCO2) ag.CO2_Init(); if (hasPM) ag.PMS_Init(); if (hasSHT) ag.TMP_RH_Init(0x44);\<close>
  \<^verbatim>\<open>  if (connectWIFI) setupWiFi(); if (sendMQTT) client.setServer(mqtt_host, 1883);\<close>
  \<^verbatim>\<open>  delay(2000); }\<close>
\<close>

definition setup_arduino :: "settings \<Rightarrow> network \<Rightarrow> 32 word \<Rightarrow> state option" where
  "setup_arduino cfg net chip =
     (let st = emit (Delay 2000) initial;
          st = st\<lparr>deviceid := toCharArray (String_hex (unat chip)) 32\<rparr>;
          st = lcd ''Initializing'' ''Device:'' (deviceid st) [] [] st
      in map_option (emit (Delay 2000)) (if connectWIFI cfg then setupWiFi net st else Some st))"

subsection \<open>reconnect()\<close>

text \<open>
  \<^verbatim>\<open>while (!client.connected()) { clientId = "airgradient-" + String(random(0xffff), HEX);\<close>
  \<^verbatim>\<open>  if (client.connect(...)) {...} else { ...; delay(5000); } }\<close>
  The loop has no bound. The first argument is what \<^verbatim>\<open>client.connected()\<close> answers
  at the head of the loop; after an attempt it is the outcome of that attempt. When the
  attempts supplied run out with the client still disconnected the loop has not
  returned: \<open>None\<close>.
\<close>

fun reconnect :: "bool \<Rightarrow> (nat \<times> bool) list \<Rightarrow> state \<Rightarrow> state option" where
  "reconnect conn [] st = (if conn then Some st else None)"
| "reconnect conn ((r, ok) # rest) st =
     (if conn then Some st
      else let clientId = ''airgradient-'' @ String_hex (r mod 65535);
               st1 = emit (Connect clientId ok) st
           in if ok then reconnect True rest st1
              else reconnect False rest (emit (Delay 5000) st1))"

subsection \<open>loop(): sampling\<close>

definition sample_reset :: "settings \<Rightarrow> inputs \<Rightarrow> state \<Rightarrow> state" where
  "sample_reset cfg inp st =
     st\<lparr>msLAST_SAMPLE := ms_sample_set inp,
        ln1 := [], ln2 := [], ln3 := [], ln4 := [], ln5 := [],
        topic_prefix := mqtt_topic_root cfg @ ''/'' @ deviceid st @ ''/''\<rparr>"

definition sample_CO2 :: "settings \<Rightarrow> inputs \<Rightarrow> state \<Rightarrow> state" where
  "sample_CO2 cfg inp st =
     (if hasCO2 cfg then
        let st1 = emit ReadCO2 st; v = raw_value (co2_read inp)
        in st1\<lparr>CO2 := v, ln5 := ''CO2: '' @ String_int v\<rparr>
      else st)"

definition sample_PM :: "settings \<Rightarrow> inputs \<Rightarrow> state \<Rightarrow> state" where
  "sample_PM cfg inp st =
     (if hasPM cfg then
        let st1 = emit ReadPM st; v = raw_value (pm_read inp); a = pm25toAQI v
        in st1\<lparr>PM2 := v, AQI := a, ln3 := ''AQI:  '' @ String_int a,
               ln4 := ''PM2: '' @ String_int v\<rparr>
      else st)"

text \<open>
  \<^verbatim>\<open>Temperature = (result.t * 1.8) + 32;\<close> is computed in \<^verbatim>\<open>double\<close> and stored in
  a \<^verbatim>\<open>float\<close>. The degree sign of the source file is the four bytes C3 82 C2 B0,
  and \<^verbatim>\<open>"\%"\<close> is a percent sign.
\<close>

definition sample_SHT :: "settings \<Rightarrow> inputs \<Rightarrow> state \<Rightarrow> state" where
  "sample_SHT cfg inp st =
     (if hasSHT cfg then
        let st1 = emit ReadSHT st; (t, rh) = raw_value (sht_read inp);
            tf = f32 (f64 (f64 (t * DBL 1.8) + 32))
        in st1\<lparr>Humidity := rh, Temperature := tf,
               ln1 := ''TMP: '' @ String_int (int_of_float tf)
                        @ [CHR 0xC3, CHR 0x82, CHR 0xC2, CHR 0xB0, CHR ''F''],
               ln2 := ''HMD: '' @ String_int rh @ ''%''\<rparr>
      else st)"

definition sample :: "settings \<Rightarrow> inputs \<Rightarrow> state \<Rightarrow> state" where
  "sample cfg inp st =
     (if msSAMPLE_INTERVAL \<le> ms_sample_check inp - msLAST_SAMPLE st then
        let st1 = sample_SHT cfg inp (sample_PM cfg inp (sample_CO2 cfg inp (sample_reset cfg inp st)))
        in lcd (ln1 st1) (ln2 st1) (ln3 st1) (ln4 st1) (ln5 st1) st1
      else st)"

subsection \<open>loop(): publishing\<close>

text \<open>
  \<^verbatim>\<open>client.publish(mqtt_topic, mqtt_payload, true);\<close> after the topic and the payload
  have been copied into their buffers with \<^verbatim>\<open>toCharArray(..., 64)\<close>. The value that
  \<^verbatim>\<open>client.publish\<close> returns is discarded.
\<close>

definition client_publish :: "inputs \<Rightarrow> string \<Rightarrow> string \<Rightarrow> bool \<Rightarrow> state \<Rightarrow> state" where
  "client_publish inp topic payload retained st =
     emit (Publish topic payload retained (publish_result inp topic)) st"

definition publish_CO2 :: "settings \<Rightarrow> inputs \<Rightarrow> state \<Rightarrow> state" where
  "publish_CO2 cfg inp st =
     (if hasCO2 cfg then
        client_publish inp (toCharArray (topic_prefix st @ ''co2'') 64)
          (toCharArray (String_int (CO2 st)) 64) True st
      else st)"

definition publish_PM :: "settings \<Rightarrow> inputs \<Rightarrow> state \<Rightarrow> state" where
  "publish_PM cfg inp st =
     (if hasPM cfg then
        client_publish inp (toCharArray (topic_prefix st @ ''pm25'') 64)
          (toCharArray (String_int (PM2 st)) 64) True
          (client_publish inp (toCharArray (topic_prefix st @ ''aqi'') 64)
             (toCharArray (String_int (AQI st)) 64) True st)
      else st)"

definition publish_SHT :: "settings \<Rightarrow> inputs \<Rightarrow> state \<Rightarrow> state" where
  "publish_SHT cfg inp st =
     (if hasSHT cfg then
        client_publish inp (toCharArray (topic_prefix st @ ''temperature'') 64)
          (toCharArray (String_float cfg (Temperature st)) 64) True
          (client_publish inp (toCharArray (topic_prefix st @ ''humidity'') 64)
             (toCharArray (String_int (Humidity st)) 64) True st)
      else st)"

definition publish :: "settings \<Rightarrow> inputs \<Rightarrow> state \<Rightarrow> state" where
  "publish cfg inp st =
     (if connectWIFI cfg \<and> sendMQTT cfg
         \<and> msPUBLISH_INTERVAL \<le> ms_publish_check inp - msLAST_METRIC st then
        publish_SHT cfg inp (publish_PM cfg inp (publish_CO2 cfg inp
          (st\<lparr>msLAST_METRIC := ms_publish_set inp\<rparr>)))
      else st)"

subsection \<open>loop()\<close>

definition supervise :: "settings \<Rightarrow> inputs \<Rightarrow> state \<Rightarrow> state option" where
  \<comment> \<open>the first block of \<^verbatim>\<open>loop()\<close>\<close>
  "supervise cfg inp st =
     (if connectWIFI cfg \<and> sendMQTT cfg then
        map_option (emit ClientLoop)
          (if \<not> link_up inp then reconnect False (attempts inp) st else Some st)
      else Some st)"

definition loop :: "settings \<Rightarrow> inputs \<Rightarrow> state \<Rightarrow> state option" where
  "loop cfg inp st = map_option (\<lambda>st1. publish cfg inp (sample cfg inp st1)) (supervise cfg inp st)"

text \<open>Arduino calls \<^verbatim>\<open>loop()\<close> again and again; a run is a finite number of passes.\<close>

fun run :: "settings \<Rightarrow> inputs list \<Rightarrow> state \<Rightarrow> state option" where
  "run cfg [] st = Some st"
| "run cfg (inp # inps) st = (case loop cfg inp st of None \<Rightarrow> None | Some st1 \<Rightarrow> run cfg inps st1)"

subsection \<open>Reading the trace\<close>

fun publishes :: "event list \<Rightarrow> (string \<times> string \<times> bool) list" where
  "publishes [] = []"
| "publishes (Publish t p r ok # evs) = (t, p, r) # publishes evs"
| "publishes (ev # evs) = publishes evs"

fun delays :: "event list \<Rightarrow> nat list" where
  "delays [] = []"
| "delays (Delay n # evs) = n # delays evs"
| "delays (ev # evs) = delays evs"

fun reads :: "event list \<Rightarrow> event list" where
  "reads [] = []"
| "reads (ReadCO2 # evs) = ReadCO2 # reads evs"
| "reads (ReadPM # evs) = ReadPM # reads evs"
| "reads (ReadSHT # evs) = ReadSHT # reads evs"
| "reads (ev # evs) = reads evs"

fun renders :: "event list \<Rightarrow> (string \<times> string \<times> string \<times> string \<times> string) list" where
  "renders [] = []"
| "renders (Lcd a b c d e # evs) = (a, b, c, d, e) # renders evs"
| "renders (ev # evs) = renders evs"

text \<open>The metrics of the enabled sensors, in the order \<^verbatim>\<open>loop()\<close> publishes them.\<close>

definition metrics :: "settings \<Rightarrow> string list" where
  "metrics cfg = (if hasCO2 cfg then [''co2''] else [])
               @ (if hasPM cfg then [''aqi'', ''pm25''] else [])
               @ (if hasSHT cfg then [''humidity'', ''temperature''] else [])"

definition payload_of :: "settings \<Rightarrow> state \<Rightarrow> string \<Rightarrow> string" where
  "payload_of cfg st m =
     (if m = ''co2'' then String_int (CO2 st)
      else if m = ''aqi'' then String_int (AQI st)
      else if m = ''pm25'' then String_int (PM2 st)
      else if m = ''humidity'' then String_int (Humidity st)
      else String_float cfg (Temperature st))"

text \<open>The request the publish tick makes for a metric: topic, payload, retained flag.\<close>

definition request_of :: "settings \<Rightarrow> state \<Rightarrow> string \<Rightarrow> string \<times> string \<times> bool" where
  "request_of cfg st m =
     (toCharArray (topic_prefix st @ m) 64, toCharArray (payload_of cfg st m) 64, True)"

text \<open>The driver calls of one sample tick, in order.\<close>

definition sensor_reads :: "settings \<Rightarrow> event list" where
  "sensor_reads cfg = (if hasCO2 cfg then [ReadCO2] else []) @ (if hasPM cfg then [ReadPM] else [])
     @ (if hasSHT cfg then [ReadSHT] else [])"

text \<open>The two timer tests of \<^verbatim>\<open>loop()\<close>, on unsigned 32-bit milliseconds.\<close>

definition sample_due :: "inputs \<Rightarrow> state \<Rightarrow> bool" where
  "sample_due inp st = (msSAMPLE_INTERVAL \<le> ms_sample_check inp - msLAST_SAMPLE st)"

definition publish_due :: "settings \<Rightarrow> inputs \<Rightarrow> state \<Rightarrow> bool" where
  "publish_due cfg inp st = (connectWIFI cfg \<and> sendMQTT cfg
       \<and> msPUBLISH_INTERVAL \<le> ms_publish_check inp - msLAST_METRIC st)"

text \<open>The client identifier of a connection attempt, from the random number drawn.\<close>

definition client_id :: "nat \<Rightarrow> string" where
  "client_id r = ''airgradient-'' @ String_hex (r mod 65535)"

text \<open>The events of the connection supervisor.\<close>

fun link_event :: "event \<Rightarrow> bool" where
  "link_event (Connect i ok) = True"
| "link_event (Delay n) = True"
| "link_event ClientLoop = True"
| "link_event ev = False"

text \<open>
  The topics of the enabled sensors. The prefix is empty until the first sample tick has
  built it from the topic root and the device identifier.
\<close>

definition device_prefix :: "settings \<Rightarrow> 32 word \<Rightarrow> string" where
  "device_prefix cfg chip = mqtt_topic_root cfg @ ''/'' @ String_hex (unat chip) @ ''/''"

definition enabled_topics :: "settings \<Rightarrow> 32 word \<Rightarrow> string list" where
  "enabled_topics cfg chip =
     map (\<lambda>m. toCharArray m 64) (metrics cfg)
     @ map (\<lambda>m. toCharArray (device_prefix cfg chip @ m) 64) (metrics cfg)"

text \<open>An event that respects the sensor enablement.\<close>

fun silent :: "settings \<Rightarrow> string list \<Rightarrow> event \<Rightarrow> bool" where
  "silent cfg topics (Lcd a b c d e) =
     ((hasSHT cfg \<or> a = [] \<and> b = []) \<and> (hasPM cfg \<or> c = [] \<and> d = []) \<and> (hasCO2 cfg \<or> e = []))"
| "silent cfg topics (Publish t p r ok) = (t \<in> set topics)"
| "silent cfg topics ReadCO2 = hasCO2 cfg"
| "silent cfg topics ReadPM = hasPM cfg"
| "silent cfg topics ReadSHT = hasSHT cfg"
| "silent cfg topics ev = True"

subsection \<open>A concrete device\<close>

text \<open>
  A device with every sensor and the network enabled, and one pass of \<^verbatim>\<open>loop()\<close>: the
  client is disconnected on entry, three connection attempts fail and the fourth
  succeeds, both timers have elapsed, the CO2 sensor reads 412, the read of the particle
  sensor fails inside the driver, which hands back 0, and every publish fails. During
  \<^verbatim>\<open>setup()\<close> the station is connected at the third look.
\<close>

definition demo_settings :: settings where
  "demo_settings = \<lparr>hasCO2 = True, hasPM = True, hasSHT = True, connectWIFI = True,
     sendMQTT = True, mqtt_topic_root = ''airgradient'', String_float = (\<lambda>x. ''72.50'')\<rparr>"

definition demo_network :: network where
  "demo_network = \<lparr>wifi_ssid = ''home'', wifi_status = [False, False, True],
     local_ip = (192, 168, 1, 20)\<rparr>"

definition demo_inputs :: inputs where
  "demo_inputs = \<lparr>link_up = False,
     attempts = [(70000, False), (5, False), (255, False), (4096, True)],
     ms_sample_check = 31000, ms_sample_set = 31000,
     ms_publish_check = 31001, ms_publish_set = 31001,
     co2_read = Got 412, pm_read = Failed 0, sht_read = Got (22.5, 40),
     publish_result = (\<lambda>t. False)\<rparr>"



section \<open>Properties of the rounding\<close>

lemma binade_bounds_ge1:
  assumes "1 \<le> \<bar>x\<bar>"
  shows "2 powi (binade x) \<le> \<bar>x\<bar> \<and> \<bar>x\<bar> < 2 powi (binade x + 1)"
proof -
  define n where "n = \<lfloor>\<bar>x\<bar>\<rfloor>"
  have n1: "1 \<le> n" using assms by (simp add: n_def le_floor_iff)
  have bl: "1 \<le> bitlen n" using n1 by (simp add: bitlen_alt_def)
  from bitlen_bounds[of n] n1
  have lo: "2 ^ nat (bitlen n - 1) \<le> n" and hi: "n < 2 ^ nat (bitlen n)" by auto
  have e: "binade x = bitlen n - 1" using assms by (simp add: binade_def n_def)
  have "(2::rat) powi (bitlen n - 1) = 2 ^ nat (bitlen n - 1)"
    using bl by (simp add: power_int_def)
  also have "\<dots> = of_int (2 ^ nat (bitlen n - 1))" by simp
  also have "\<dots> \<le> of_int n" using lo by (simp only: of_int_le_iff)
  also have "\<dots> \<le> \<bar>x\<bar>" by (simp add: n_def)
  finally have A: "2 powi (binade x) \<le> \<bar>x\<bar>" by (simp add: e)
  have "\<bar>x\<bar> < of_int (n + 1)" unfolding n_def by linarith
  also have "\<dots> \<le> of_int (2 ^ nat (bitlen n))" using hi by (simp only: of_int_le_iff)
  also have "\<dots> = (2::rat) powi (bitlen n)" using bl by (simp add: power_int_def)
  finally have B: "\<bar>x\<bar> < 2 powi (binade x + 1)" by (simp add: e)
  from A B show ?thesis by simp
qed

lemma binade_bounds_lt1:
  assumes "\<bar>x\<bar> < 1" "x \<noteq> 0"
  shows "2 powi (binade x) \<le> \<bar>x\<bar> \<and> \<bar>x\<bar> < 2 powi (binade x + 1)"
proof -
  define y where "y = 1 / \<bar>x\<bar>"
  define m where "m = \<lceil>y\<rceil>"
  define k where "k = bitlen (m - 1)"
  have xpos: "0 < \<bar>x\<bar>" using assms by simp
  have y1: "1 < y" using assms xpos by (simp add: y_def)
  have m2: "2 \<le> m" using y1 unfolding m_def by linarith
  have k1: "1 \<le> k" using m2 by (simp add: k_def bitlen_alt_def)
  from bitlen_bounds[of "m - 1"] m2
  have lo: "2 ^ nat (k - 1) \<le> m - 1" and hi: "m - 1 < 2 ^ nat k" by (auto simp: k_def)
  have e: "binade x = - k" using assms by (simp add: binade_def k_def m_def y_def)
  have "y \<le> of_int m" by (simp add: m_def)
  also have "\<dots> \<le> of_int (2 ^ nat k)" using hi by (simp only: of_int_le_iff)
  also have "\<dots> = (2::rat) powi k" using k1 by (simp add: power_int_def)
  finally have "1 / \<bar>x\<bar> \<le> 2 powi k" by (simp add: y_def)
  hence "1 \<le> 2 powi k * \<bar>x\<bar>" using xpos by (simp add: field_simps)
  hence A: "2 powi (- k) \<le> \<bar>x\<bar>"
    by (simp add: power_int_minus field_simps)
  have "(2::rat) powi (k - 1) = of_int (2 ^ nat (k - 1))" using k1 by (simp add: power_int_def)
  also have "\<dots> \<le> of_int (m - 1)" using lo by (simp only: of_int_le_iff)
  also have "\<dots> < y" unfolding m_def by linarith
  finally have "2 powi (k - 1) < 1 / \<bar>x\<bar>" by (simp add: y_def)
  hence "\<bar>x\<bar> * 2 powi (k - 1) < 1" using xpos by (simp add: field_simps)
  moreover have p: "0 < (2::rat) powi (k - 1)" by simp
  ultimately have lt: "\<bar>x\<bar> < 1 / 2 powi (k - 1)" by (simp add: pos_less_divide_eq)
  have "- k + 1 = - (k - 1)" by simp
  hence "(2::rat) powi (- k + 1) = 2 powi (- (k - 1))" by (simp only:)
  also have "\<dots> = 1 / 2 powi (k - 1)" by (rule power_int_minus_divide)
  finally have B: "\<bar>x\<bar> < 2 powi (- k + 1)" using lt by simp
  from A B show ?thesis by (simp add: e)
qed

lemma binade_bounds:
  "x \<noteq> 0 \<Longrightarrow> 2 powi (binade x) \<le> \<bar>x\<bar> \<and> \<bar>x\<bar> < 2 powi (binade x + 1)"
  using binade_bounds_ge1[of x] binade_bounds_lt1[of x] by (cases "1 \<le> \<bar>x\<bar>") auto

lemma binade_unique:
  assumes "2 powi e \<le> \<bar>x\<bar>" "\<bar>x\<bar> < 2 powi (e + 1)"
  shows "binade x = e"
proof -
  have "0 < (2::rat) powi e" by simp
  hence "0 < \<bar>x\<bar>" using assms(1) by linarith
  hence "x \<noteq> 0" by simp
  from binade_bounds[OF this]
  have b: "2 powi (binade x) \<le> \<bar>x\<bar>" "\<bar>x\<bar> < 2 powi (binade x + 1)" by auto
  have "(2::rat) powi e < 2 powi (binade x + 1)" using assms(1) b(2) by linarith
  hence 1: "e < binade x + 1"
    by (metis not_less power_int_increasing one_le_numeral)
  have "(2::rat) powi (binade x) < 2 powi (e + 1)" using assms(2) b(1) by linarith
  hence 2: "binade x < e + 1"
    by (metis not_less power_int_increasing one_le_numeral)
  from 1 2 show ?thesis by linarith
qed

lemma rne_of_int: "rne (of_int n) = n"
  by (simp add: rne_def)

lemma rne_ge_floor: "\<lfloor>x\<rfloor> \<le> rne x"
  by (simp add: rne_def Let_def)

lemma rne_le_floor1: "rne x \<le> \<lfloor>x\<rfloor> + 1"
  by (simp add: rne_def Let_def)

lemma rne_ge: "of_int n \<le> x \<Longrightarrow> n \<le> rne x"
  using rne_ge_floor[of x] le_floor_iff[of n x] by linarith

lemma rne_le: 
  assumes "x \<le> of_int n" shows "rne x \<le> n"
proof (cases "x = of_int n")
  case True thus ?thesis by (simp add: rne_of_int)
next
  case False
  hence "x < of_int n" using assms by simp
  hence "\<lfloor>x\<rfloor> < n" by (simp add: floor_less_iff)
  thus ?thesis using rne_le_floor1[of x] by linarith
qed

lemma rne_mono:
  assumes "x \<le> y" shows "rne x \<le> rne y"
proof (cases "\<lfloor>x\<rfloor> < \<lfloor>y\<rfloor>")
  case True
  thus ?thesis using rne_le_floor1[of x] rne_ge_floor[of y] by linarith
next
  case False
  hence eq: "\<lfloor>x\<rfloor> = \<lfloor>y\<rfloor>" using floor_mono[OF assms] by linarith
  show ?thesis using assms by (auto simp: rne_def Let_def eq)
qed

lemma rne_minus: "rne (- x) = - rne x"
proof (cases "x = of_int \<lfloor>x\<rfloor>")
  case True
  then obtain n where "x = of_int n" ..
  hence "- x = of_int (- n)" by simp
  thus ?thesis using \<open>x = of_int n\<close> by (simp only: rne_of_int)
next
  case False
  hence lt: "of_int \<lfloor>x\<rfloor> < x" using of_int_floor_le[of x] by linarith
  have "\<lfloor>- x\<rfloor> = - \<lfloor>x\<rfloor> - 1"
    by (rule floor_unique) (use lt floor_correct[of x] in \<open>simp_all\<close>)
  thus ?thesis by (auto simp: rne_def Let_def)
qed

lemma binade_minus: "binade (- x) = binade x"
  by (simp add: binade_def)

lemma fround_minus: "fround p (- x) = - fround p x"
  by (simp add: fround_def binade_minus Let_def rne_minus)

lemma fround_0: "fround p 0 = 0"
  by (simp add: fround_def)

lemma fround_pos_bounds:
  assumes "0 < x" "0 < p"
  shows "2 powi (binade x) \<le> fround p x" "fround p x \<le> 2 powi (binade x + 1)"
proof -
  define e where "e = binade x"
  define u :: rat where "u = 2 powi (e - (int p - 1))"
  have upos: "0 < u" by (simp add: u_def)
  have fr: "fround p x = of_int (rne (x / u)) * u"
    using assms by (simp add: fround_def Let_def u_def e_def)
  from binade_bounds[of x] assms
  have b: "2 powi e \<le> x" "x < 2 powi (e + 1)" by (auto simp: e_def)
  have lo_eq: "(2::rat) powi e = of_int (2 ^ (p - 1)) * u"
  proof -
    have "(2::rat) powi e = 2 powi (int (p - 1) + (e - (int p - 1)))" using assms by simp
    also have "\<dots> = 2 powi (int (p - 1)) * 2 powi (e - (int p - 1))"
      by (rule power_int_add) simp
    finally show ?thesis by (simp add: u_def)
  qed
  have hi_eq: "(2::rat) powi (e + 1) = of_int (2 ^ p) * u"
  proof -
    have "(2::rat) powi (e + 1) = 2 powi (int p + (e - (int p - 1)))" by simp
    also have "\<dots> = 2 powi (int p) * 2 powi (e - (int p - 1))"
      by (rule power_int_add) simp
    finally show ?thesis by (simp add: u_def)
  qed
  have "of_int (2 ^ (p - 1)) \<le> x / u" using b(1) upos by (simp add: lo_eq pos_le_divide_eq)
  hence "2 ^ (p - 1) \<le> rne (x / u)" by (rule rne_ge)
  hence "(of_int (2 ^ (p - 1)) :: rat) \<le> of_int (rne (x / u))" by (simp only: of_int_le_iff)
  hence "of_int (2 ^ (p - 1)) * u \<le> of_int (rne (x / u)) * u"
    using upos by (simp only: mult_le_cancel_right_pos)
  thus "2 powi (binade x) \<le> fround p x" by (simp only: fr lo_eq[symmetric] e_def)
  have "x / u \<le> of_int (2 ^ p)" using b(2) upos by (simp add: hi_eq pos_divide_le_eq)
  hence "rne (x / u) \<le> 2 ^ p" by (rule rne_le)
  hence "(of_int (rne (x / u)) :: rat) \<le> of_int (2 ^ p)" by (simp only: of_int_le_iff)
  hence "of_int (rne (x / u)) * u \<le> of_int (2 ^ p) * u"
    using upos by (simp only: mult_le_cancel_right_pos)
  thus "fround p x \<le> 2 powi (binade x + 1)" by (simp only: fr hi_eq[symmetric] e_def)
qed

lemma binade_mono_pos:
  assumes "0 < x" "x \<le> y" shows "binade x \<le> binade y"
proof -
  from binade_bounds[of x] binade_bounds[of y] assms
  have "2 powi (binade x) \<le> x" "y < 2 powi (binade y + 1)" by auto
  hence "(2::rat) powi (binade x) < 2 powi (binade y + 1)" using assms by linarith
  hence "binade x < binade y + 1"
    by (metis not_less power_int_increasing one_le_numeral)
  thus ?thesis by simp
qed

lemma fround_mono_pos:
  assumes "0 < x" "x \<le> y" "0 < p" shows "fround p x \<le> fround p y"
proof (cases "binade x = binade y")
  case True
  define u :: rat where "u = 2 powi (binade y - (int p - 1))"
  have upos: "0 < u" by (simp add: u_def)
  have "x / u \<le> y / u" using assms upos by (simp add: divide_right_mono)
  hence "rne (x / u) \<le> rne (y / u)" by (rule rne_mono)
  hence "(of_int (rne (x / u)) :: rat) * u \<le> of_int (rne (y / u)) * u"
    using upos by simp
  thus ?thesis using assms by (simp add: fround_def Let_def True u_def)
next
  case False
  hence "binade x + 1 \<le> binade y" using binade_mono_pos[OF assms(1,2)] by simp
  hence "(2::rat) powi (binade x + 1) \<le> 2 powi (binade y)"
    by (rule power_int_increasing) simp
  moreover have "fround p x \<le> 2 powi (binade x + 1)"
    using fround_pos_bounds(2)[of x p] assms by simp
  moreover have "2 powi (binade y) \<le> fround p y"
    using fround_pos_bounds(1)[of y p] assms by simp
  ultimately show ?thesis by linarith
qed

lemma fround_pos: "0 < x \<Longrightarrow> 0 < p \<Longrightarrow> 0 < fround p x"
  using fround_pos_bounds(1)[of x p] zero_less_power_int[of "2::rat" "binade x"]
  by (simp del: zero_less_power_int) 

lemma fround_neg: "x < 0 \<Longrightarrow> 0 < p \<Longrightarrow> fround p x < 0"
  using fround_pos[of "- x" p] by (simp add: fround_minus)

lemma fround_mono:
  assumes "x \<le> y" "0 < p" shows "fround p x \<le> fround p y"
proof -
  consider "0 < x" | "y < 0" | "x \<le> 0" "0 \<le> y" by linarith
  thus ?thesis
  proof cases
    case 1 thus ?thesis using assms by (simp add: fround_mono_pos)
  next
    case 2
    hence "fround p (- y) \<le> fround p (- x)" using assms by (intro fround_mono_pos) auto
    thus ?thesis by (simp add: fround_minus)
  next
    case 3
    have "fround p x \<le> 0" using 3(1) fround_neg[of x p] assms(2) 
      by (cases "x = 0") (auto simp: fround_0 intro: less_imp_le)
    moreover have "0 \<le> fround p y" using 3(2) fround_pos[of y p] assms(2) 
      by (cases "y = 0") (auto simp: fround_0 intro: less_imp_le)
    ultimately show ?thesis by simp
  qed
qed

lemma fround_exact:
  assumes "\<bar>m\<bar> < 2 ^ p" "0 < p"
  shows "fround p (of_int m * 2 powi k) = of_int m * 2 powi k"
proof (cases "m = 0")
  case True thus ?thesis by (simp add: fround_0)
next
  case False
  define x :: rat where "x = of_int m * 2 powi k"
  define e where "e = binade x"
  have x0: "x \<noteq> 0" using False by (simp add: x_def)
  have ax: "\<bar>x\<bar> = of_int \<bar>m\<bar> * 2 powi k" by (simp add: x_def abs_mult)
  from binade_bounds[OF x0] have lo: "2 powi e \<le> \<bar>x\<bar>" by (simp add: e_def)
  have "(of_int \<bar>m\<bar> :: rat) < of_int (2 ^ p)" using assms(1) by (simp only: of_int_less_iff)
  hence "\<bar>x\<bar> < of_int (2 ^ p) * 2 powi k" unfolding ax by (simp del: of_int_abs of_int_power)
  also have "\<dots> = 2 powi (int p) * 2 powi k" by simp
  also have "\<dots> = 2 powi (int p + k)" by (rule power_int_add[symmetric]) simp
  finally have "(2::rat) powi e < 2 powi (int p + k)" using lo by linarith
  hence "e < int p + k" by (metis not_less power_int_increasing one_le_numeral)
  hence j0: "0 \<le> k - (e - (int p - 1))" by simp
  define j where "j = nat (k - (e - (int p - 1)))"
  define u :: rat where "u = 2 powi (e - (int p - 1))"
  have upos: "0 < u" by (simp add: u_def)
  have "(2::rat) powi k = 2 powi (int j + (e - (int p - 1)))" using j0 by (simp add: j_def)
  also have "\<dots> = 2 powi (int j) * u" unfolding u_def by (rule power_int_add) simp
  finally have pk: "(2::rat) powi k = of_int (2 ^ j) * u" by simp
  have "x / u = of_int (m * 2 ^ j)" using upos by (simp add: x_def pk)
  hence "rne (x / u) = m * 2 ^ j" by (simp only: rne_of_int)
  hence "fround p x = of_int (m * 2 ^ j) * u" using x0 by (simp add: fround_def Let_def e_def u_def)
  also have "\<dots> = x" by (simp add: x_def pk)
  finally show ?thesis by (simp add: x_def)
qed

lemma fround_exact_int:
  assumes "\<bar>n\<bar> \<le> 2 ^ p" "0 < p"
  shows "fround p (of_int n) = of_int n"
proof (cases "\<bar>n\<bar> = 2 ^ p")
  case True
  hence "n = 2 ^ p \<or> n = - (2 ^ p)" by (auto simp: abs_if split: if_splits)
  moreover have "fround p (of_int 1 * 2 powi (int p)) = of_int 1 * 2 powi (int p)"
    by (rule fround_exact) (use assms in auto)
  hence "fround p (2 ^ p) = 2 ^ p" by simp
  ultimately show ?thesis by (auto simp: fround_minus)
next
  case False
  hence "\<bar>n\<bar> < 2 ^ p" using assms by simp
  from fround_exact[OF this assms(2), of 0] show ?thesis by simp
qed


lemma f32_mono: "x \<le> y \<Longrightarrow> f32 x \<le> f32 y"
  by (simp add: f32_def fround_mono)

lemma f32_neg: "x < 0 \<Longrightarrow> f32 x < 0"
  by (simp add: f32_def fround_neg)

lemma f32_nonneg: "0 \<le> x \<Longrightarrow> 0 \<le> f32 x"
  using f32_mono[of 0 x] by (simp add: f32_def fround_0)

lemma f32_of_int: "\<bar>n\<bar> \<le> 16777216 \<Longrightarrow> f32 (of_int n) = of_int n"
  using fround_exact_int[of n 24] by (simp add: f32_def)

lemma f32_ge_int: "of_int n \<le> x \<Longrightarrow> \<bar>n\<bar> \<le> 16777216 \<Longrightarrow> of_int n \<le> f32 x"
  using f32_mono[of "of_int n" x] by (simp add: f32_of_int)

lemma f32_le_int: "x \<le> of_int n \<Longrightarrow> \<bar>n\<bar> \<le> 16777216 \<Longrightarrow> f32 x \<le> of_int n"
  using f32_mono[of x "of_int n"] by (simp add: f32_of_int)

lemma float_of_int_10: "float_of_int 10 = 10"
  using f32_of_int[of 10] by (simp add: float_of_int_def)

lemma trunc1_mono: 
  assumes "x \<le> y" shows "trunc1 x \<le> trunc1 y"
proof -
  have "10 * x \<le> 10 * y" using assms by simp
  hence "f32 (10 * x) \<le> f32 (10 * y)" by (rule f32_mono)
  hence "\<lfloor>f32 (10 * x)\<rfloor> \<le> \<lfloor>f32 (10 * y)\<rfloor>" by (rule floor_mono)
  hence "(of_int \<lfloor>f32 (10 * x)\<rfloor> :: rat) / 10 \<le> of_int \<lfloor>f32 (10 * y)\<rfloor> / 10" by simp
  hence "f32 (of_int \<lfloor>f32 (10 * x)\<rfloor> / 10) \<le> f32 (of_int \<lfloor>f32 (10 * y)\<rfloor> / 10)"
    by (rule f32_mono)
  thus ?thesis by (simp add: trunc1_def fdiv_def fmul_def float_of_int_10)
qed

lemma trunc1_of_int:
  assumes "\<bar>n\<bar> \<le> 1677721" shows "trunc1 (of_int n) = of_int n"
proof -
  have "f32 (10 * of_int n) = f32 (of_int (10 * n))" by simp
  also have "\<dots> = of_int (10 * n)" by (rule f32_of_int) (use assms in simp)
  finally have "\<lfloor>f32 (10 * of_int n)\<rfloor> = 10 * n" by (simp only: floor_of_int)
  hence "trunc1 (of_int n) = f32 (of_int (10 * n) / 10)"
    by (simp add: trunc1_def fdiv_def fmul_def float_of_int_10)
  also have "\<dots> = f32 (of_int n)" by simp
  also have "\<dots> = of_int n" by (rule f32_of_int) (use assms in simp)
  finally show ?thesis .
qed

lemma trunc1_ge_int: "of_int n \<le> x \<Longrightarrow> \<bar>n\<bar> \<le> 1677721 \<Longrightarrow> of_int n \<le> trunc1 x"
  using trunc1_mono[of "of_int n" x] by (simp add: trunc1_of_int)

lemma trunc1_le_int: "x \<le> of_int n \<Longrightarrow> \<bar>n\<bar> \<le> 1677721 \<Longrightarrow> trunc1 x \<le> of_int n"
  using trunc1_mono[of x "of_int n"] by (simp add: trunc1_of_int)

lemma trunc1_neg:
  assumes "x < 0" shows "trunc1 x < 0"
proof -
  have "f32 (10 * x) < 0" using assms by (intro f32_neg) simp
  hence "\<lfloor>f32 (10 * x)\<rfloor> < 0" by (simp add: floor_less_iff)
  hence "(of_int \<lfloor>f32 (10 * x)\<rfloor> :: rat) / 10 < 0" by simp
  hence "f32 (of_int \<lfloor>f32 (10 * x)\<rfloor> / 10) < 0" by (rule f32_neg)
  thus ?thesis by (simp add: trunc1_def fdiv_def fmul_def float_of_int_10)
qed

lemma round_away_mono: "x \<le> y \<Longrightarrow> round_away x \<le> round_away y"
  unfolding round_away_def
  by (auto intro!: floor_mono ceiling_mono) linarith+

lemma linear_aqi_mono:
  assumes d: "0 < fsub Conchigh Conclow" and k: "AQIlow \<le> AQIhigh" and c: "c1 \<le> c2"
  shows "linear_aqi AQIhigh AQIlow Conchigh Conclow c1 \<le> linear_aqi AQIhigh AQIlow Conchigh Conclow c2"
proof -
  define D where "D = fsub Conchigh Conclow"
  define K where "K = float_of_int (AQIhigh - AQIlow)"
  have K0: "0 \<le> K" using k by (simp add: K_def float_of_int_def f32_nonneg)
  have D0: "0 < D" using d by (simp add: D_def)
  have "f32 (c1 - Conclow) \<le> f32 (c2 - Conclow)" using c by (intro f32_mono) simp
  hence "f32 (c1 - Conclow) / D \<le> f32 (c2 - Conclow) / D" using D0 by (simp add: divide_right_mono)
  hence "f32 (f32 (c1 - Conclow) / D) \<le> f32 (f32 (c2 - Conclow) / D)" by (rule f32_mono)
  hence "f32 (f32 (c1 - Conclow) / D) * K \<le> f32 (f32 (c2 - Conclow) / D) * K"
    using K0 by (rule mult_right_mono)
  hence "f32 (f32 (f32 (c1 - Conclow) / D) * K) \<le> f32 (f32 (f32 (c2 - Conclow) / D) * K)"
    by (rule f32_mono)
  hence "f32 (f32 (f32 (c1 - Conclow) / D) * K) + float_of_int AQIlow
       \<le> f32 (f32 (f32 (c2 - Conclow) / D) * K) + float_of_int AQIlow" by simp
  hence "f32 (f32 (f32 (f32 (c1 - Conclow) / D) * K) + float_of_int AQIlow)
       \<le> f32 (f32 (f32 (f32 (c2 - Conclow) / D) * K) + float_of_int AQIlow)" by (rule f32_mono)
  hence "round_away (f32 (f32 (f32 (f32 (c1 - Conclow) / D) * K) + float_of_int AQIlow))
       \<le> round_away (f32 (f32 (f32 (f32 (c2 - Conclow) / D) * K) + float_of_int AQIlow))"
    by (rule round_away_mono)
  thus ?thesis
    by (simp add: linear_aqi_def Let_def fadd_def fmul_def fdiv_def fsub_def[of c1] fsub_def[of c2]
        D_def[symmetric] K_def[symmetric])
qed

lemma bitlen_step:
  assumes "0 < a" shows "bitlen a = bitlen (a div 2) + 1"
proof -
  have "floorlog 2 (nat a) = floorlog 2 (nat a div 2) + 1"
    using assms by (subst compute_floorlog) simp
  moreover have "nat (a div 2) = nat a div 2"
    using assms by (simp add: nat_div_distrib)
  ultimately show ?thesis by (simp add: bitlen_def)
qed

lemma bitlen_numeral:
  "bitlen (numeral n) = (if (numeral n :: int) div 2 = 0 then 1 else bitlen (numeral n div 2) + 1)"
  using bitlen_step[of "numeral n"] by simp

lemma bitlen_1: "bitlen 1 = 1"
  by (simp add: bitlen_def compute_floorlog)

lemma floor_rat_numeral: "\<lfloor>numeral a / numeral b :: rat\<rfloor> = numeral a div numeral b"
  using floor_divide_of_int_eq[of "numeral a" "numeral b", where ?'a = rat] by simp

lemma floor_rat_neg_numeral: "\<lfloor>- (numeral a / numeral b) :: rat\<rfloor> = - numeral a div numeral b"
  using floor_divide_of_int_eq[of "- numeral a" "numeral b", where ?'a = rat] by simp

lemma ceiling_rat_numeral: "\<lceil>numeral a / numeral b :: rat\<rceil> = - (- numeral a div numeral b)"
  by (simp add: ceiling_def floor_rat_neg_numeral)

lemma ceiling_rat_neg_numeral: "\<lceil>- (numeral a / numeral b) :: rat\<rceil> = - (numeral a div numeral b)"
  by (simp add: ceiling_def floor_rat_numeral)

lemma floor_rat_one: "\<lfloor>1 / numeral b :: rat\<rfloor> = 1 div numeral b"
  using floor_divide_of_int_eq[of 1 "numeral b", where ?'a = rat] by simp

lemma floor_rat_neg_one: "\<lfloor>- (1 / numeral b) :: rat\<rfloor> = - 1 div numeral b"
  using floor_divide_of_int_eq[of "- 1" "numeral b", where ?'a = rat] by simp

lemma ceiling_rat_one: "\<lceil>1 / numeral b :: rat\<rceil> = - (- 1 div numeral b)"
  by (simp add: ceiling_def floor_rat_neg_one)

lemma ceiling_rat_neg_one: "\<lceil>- (1 / numeral b) :: rat\<rceil> = - (1 div numeral b)"
  by (simp add: ceiling_def floor_rat_one)

lemmas float_eval = f32_def f64_def FLT_def DBL_def fround_def binade_def rne_def Let_def
  bitlen_numeral bitlen_1 floor_rat_numeral floor_rat_neg_numeral
  ceiling_rat_numeral ceiling_rat_neg_numeral
  floor_rat_one floor_rat_neg_one ceiling_rat_one ceiling_rat_neg_one
  float_of_int_def fadd_def fsub_def fmul_def fdiv_def round_away_def linear_aqi_def

lemma float_of_int_0: "float_of_int 0 = 0"
  by (simp add: float_of_int_def f32_def fround_0)

lemma float_of_int_small: "\<bar>n\<bar> \<le> 16777216 \<Longrightarrow> float_of_int n = of_int n"
  by (simp add: float_of_int_def f32_of_int)


section \<open>Properties of the AQI converter\<close>

subsection \<open>The bands\<close>

lemma band_widths:
  "0 < fsub (float_of_int 12) (float_of_int 0)"
  "0 < fsub (FLT 35.4) (FLT 12.1)"
  "0 < fsub (FLT 55.4) (FLT 35.5)"
  "0 < fsub (FLT 150.4) (FLT 55.5)"
  "0 < fsub (FLT 250.4) (FLT 150.5)"
  "0 < fsub (FLT 350.4) (FLT 250.5)"
  "0 < fsub (FLT 500.4) (FLT 350.5)"
  "0 < fsub (FLT 1000.4) (FLT 500.5)"
  by (simp_all add: float_eval)

lemma DBL_values:
  "DBL 12.1 = 6811694436397875 / 562949953421312"
  "DBL 35.5 = 71 / 2" "DBL 55.5 = 111 / 2" "DBL 150.5 = 301 / 2"
  "DBL 250.5 = 501 / 2" "DBL 350.5 = 701 / 2" "DBL 500.5 = 1001 / 2"
  by (simp_all add: float_eval)

lemma DBL_order:
  "0 < DBL 12.1" "DBL 12.1 < DBL 35.5" "DBL 35.5 < DBL 55.5" "DBL 55.5 < DBL 150.5"
  "DBL 150.5 < DBL 250.5" "DBL 250.5 < DBL 350.5" "DBL 350.5 < DBL 500.5"
  by (simp_all add: float_eval)

lemma pm25toAQI_float_unfold:
  "pm25toAQI_float x =
     (let c = trunc1 x in
      if 0 \<le> c \<and> c < DBL 12.1 then
        linear_aqi 50 0 (float_of_int 12) (float_of_int 0) c
      else if DBL 12.1 \<le> c \<and> c < DBL 35.5 then linear_aqi 100 51 (FLT 35.4) (FLT 12.1) c
      else if DBL 35.5 \<le> c \<and> c < DBL 55.5 then linear_aqi 150 101 (FLT 55.4) (FLT 35.5) c
      else if DBL 55.5 \<le> c \<and> c < DBL 150.5 then linear_aqi 200 151 (FLT 150.4) (FLT 55.5) c
      else if DBL 150.5 \<le> c \<and> c < DBL 250.5 then linear_aqi 300 201 (FLT 250.4) (FLT 150.5) c
      else if DBL 250.5 \<le> c \<and> c < DBL 350.5 then linear_aqi 400 301 (FLT 350.4) (FLT 250.5) c
      else if DBL 350.5 \<le> c \<and> c < DBL 500.5 then linear_aqi 500 401 (FLT 500.4) (FLT 350.5) c
      else linear_aqi 1000 501 (FLT 1000.4) (FLT 500.5) c)"
  unfolding pm25toAQI_float_def trunc1_def float_of_int_0 ..

lemma band1: "0 \<le> trunc1 x \<Longrightarrow> trunc1 x < DBL 12.1 \<Longrightarrow>
     pm25toAQI_float x = linear_aqi 50 0 (float_of_int 12) (float_of_int 0) (trunc1 x)"
  by (simp add: pm25toAQI_float_unfold Let_def)

lemma band2: "DBL 12.1 \<le> trunc1 x \<Longrightarrow> trunc1 x < DBL 35.5 \<Longrightarrow>
     pm25toAQI_float x = linear_aqi 100 51 (FLT 35.4) (FLT 12.1) (trunc1 x)"
  using DBL_order by (simp add: pm25toAQI_float_unfold Let_def)

lemma band3: "DBL 35.5 \<le> trunc1 x \<Longrightarrow> trunc1 x < DBL 55.5 \<Longrightarrow>
     pm25toAQI_float x = linear_aqi 150 101 (FLT 55.4) (FLT 35.5) (trunc1 x)"
  using DBL_order by (simp add: pm25toAQI_float_unfold Let_def)

lemma band4: "DBL 55.5 \<le> trunc1 x \<Longrightarrow> trunc1 x < DBL 150.5 \<Longrightarrow>
     pm25toAQI_float x = linear_aqi 200 151 (FLT 150.4) (FLT 55.5) (trunc1 x)"
  using DBL_order by (simp add: pm25toAQI_float_unfold Let_def)

lemma band5: "DBL 150.5 \<le> trunc1 x \<Longrightarrow> trunc1 x < DBL 250.5 \<Longrightarrow>
     pm25toAQI_float x = linear_aqi 300 201 (FLT 250.4) (FLT 150.5) (trunc1 x)"
  using DBL_order by (simp add: pm25toAQI_float_unfold Let_def)

lemma band6: "DBL 250.5 \<le> trunc1 x \<Longrightarrow> trunc1 x < DBL 350.5 \<Longrightarrow>
     pm25toAQI_float x = linear_aqi 400 301 (FLT 350.4) (FLT 250.5) (trunc1 x)"
  using DBL_order by (simp add: pm25toAQI_float_unfold Let_def)

lemma band7: "DBL 350.5 \<le> trunc1 x \<Longrightarrow> trunc1 x < DBL 500.5 \<Longrightarrow>
     pm25toAQI_float x = linear_aqi 500 401 (FLT 500.4) (FLT 350.5) (trunc1 x)"
  using DBL_order by (simp add: pm25toAQI_float_unfold Let_def)

lemma band8: "trunc1 x < 0 \<or> DBL 500.5 \<le> trunc1 x \<Longrightarrow>
     pm25toAQI_float x = linear_aqi 1000 501 (FLT 1000.4) (FLT 500.5) (trunc1 x)"
  using DBL_order by (auto simp add: pm25toAQI_float_unfold Let_def)

lemma band_cases:
  fixes c :: rat
  obtains "0 \<le> c" "c < DBL 12.1" | "DBL 12.1 \<le> c" "c < DBL 35.5"
    | "DBL 35.5 \<le> c" "c < DBL 55.5" | "DBL 55.5 \<le> c" "c < DBL 150.5"
    | "DBL 150.5 \<le> c" "c < DBL 250.5" | "DBL 250.5 \<le> c" "c < DBL 350.5"
    | "DBL 350.5 \<le> c" "c < DBL 500.5" | "c < 0 \<or> DBL 500.5 \<le> c"
  by (meson not_less)

subsection \<open>The result fits an int\<close>

lemma f32_pow31: "f32 2147483648 = 2147483648" "f32 (- 2147483648) = - 2147483648"
  by (simp_all add: float_eval)

lemma trunc1_pow31: "trunc1 2147483648 = 2147483648" "trunc1 (- 2147483648) = - 2147483648"
  by (simp_all add: trunc1_def float_eval)

lemma float_of_int_range:
  assumes "int_range p"
  shows "- 2147483648 \<le> float_of_int p" "float_of_int p \<le> 2147483648"
proof -
  have "(- 2147483648 :: rat) \<le> of_int p" "(of_int p :: rat) \<le> 2147483648"
    using assms by (simp_all add: int_range_def)
  from f32_mono[OF this(1)] f32_mono[OF this(2)]
  show "- 2147483648 \<le> float_of_int p" "float_of_int p \<le> 2147483648"
    by (simp_all add: float_of_int_def f32_pow31)
qed

lemma trunc1_range:
  assumes "- 2147483648 \<le> x" "x \<le> 2147483648"
  shows "- 2147483648 \<le> trunc1 x" "trunc1 x \<le> 2147483648"
  using trunc1_mono[OF assms(1)] trunc1_mono[OF assms(2)] by (simp_all add: trunc1_pow31)

lemma linear_aqi_between:
  assumes "lo \<le> c" "c \<le> hi" "0 < fsub H L" "al \<le> ah"
    and "int_range (linear_aqi ah al H L lo)" "int_range (linear_aqi ah al H L hi)"
  shows "int_range (linear_aqi ah al H L c)"
  using linear_aqi_mono[OF assms(3,4,1)] linear_aqi_mono[OF assms(3,4,2)] assms(5,6)
  by (simp add: int_range_def)

lemma band_ends_in_range:
  "int_range (linear_aqi 50 0 (float_of_int 12) (float_of_int 0) 0)"
  "int_range (linear_aqi 50 0 (float_of_int 12) (float_of_int 0) (DBL 500.5))"
  "int_range (linear_aqi 100 51 (FLT 35.4) (FLT 12.1) 0)"
  "int_range (linear_aqi 100 51 (FLT 35.4) (FLT 12.1) (DBL 500.5))"
  "int_range (linear_aqi 150 101 (FLT 55.4) (FLT 35.5) 0)"
  "int_range (linear_aqi 150 101 (FLT 55.4) (FLT 35.5) (DBL 500.5))"
  "int_range (linear_aqi 200 151 (FLT 150.4) (FLT 55.5) 0)"
  "int_range (linear_aqi 200 151 (FLT 150.4) (FLT 55.5) (DBL 500.5))"
  "int_range (linear_aqi 300 201 (FLT 250.4) (FLT 150.5) 0)"
  "int_range (linear_aqi 300 201 (FLT 250.4) (FLT 150.5) (DBL 500.5))"
  "int_range (linear_aqi 400 301 (FLT 350.4) (FLT 250.5) 0)"
  "int_range (linear_aqi 400 301 (FLT 350.4) (FLT 250.5) (DBL 500.5))"
  "int_range (linear_aqi 500 401 (FLT 500.4) (FLT 350.5) 0)"
  "int_range (linear_aqi 500 401 (FLT 500.4) (FLT 350.5) (DBL 500.5))"
  "int_range (linear_aqi 1000 501 (FLT 1000.4) (FLT 500.5) (- 2147483648))"
  "int_range (linear_aqi 1000 501 (FLT 1000.4) (FLT 500.5) 2147483648)"
  by (simp_all add: float_eval int_range_def)

lemma pm25toAQI_float_in_range:
  assumes "- 2147483648 \<le> x" "x \<le> 2147483648"
  shows "int_range (pm25toAQI_float x)"
proof -
  define c where "c = trunc1 x"
  have r: "- 2147483648 \<le> c" "c \<le> 2147483648"
    using trunc1_range[OF assms] by (simp_all add: c_def)
  note ord = DBL_order
  note w = band_widths
  note e = band_ends_in_range
  show ?thesis
  proof (cases c rule: band_cases)
    case 1
    hence b: "0 \<le> c" "c \<le> DBL 500.5" using ord by linarith+
    have "int_range (linear_aqi 50 0 (float_of_int 12) (float_of_int 0) c)"
      by (rule linear_aqi_between[OF b w(1) _ e(1,2)]) simp
    thus ?thesis using 1 by (simp add: band1 c_def)
  next
    case 2
    hence b: "0 \<le> c" "c \<le> DBL 500.5" using ord by linarith+
    have "int_range (linear_aqi 100 51 (FLT 35.4) (FLT 12.1) c)"
      by (rule linear_aqi_between[OF b w(2) _ e(3,4)]) simp
    thus ?thesis using 2 by (simp only: band2 c_def)
  next
    case 3
    hence b: "0 \<le> c" "c \<le> DBL 500.5" using ord by linarith+
    have "int_range (linear_aqi 150 101 (FLT 55.4) (FLT 35.5) c)"
      by (rule linear_aqi_between[OF b w(3) _ e(5,6)]) simp
    thus ?thesis using 3 by (simp only: band3 c_def)
  next
    case 4
    hence b: "0 \<le> c" "c \<le> DBL 500.5" using ord by linarith+
    have "int_range (linear_aqi 200 151 (FLT 150.4) (FLT 55.5) c)"
      by (rule linear_aqi_between[OF b w(4) _ e(7,8)]) simp
    thus ?thesis using 4 by (simp only: band4 c_def)
  next
    case 5
    hence b: "0 \<le> c" "c \<le> DBL 500.5" using ord by linarith+
    have "int_range (linear_aqi 300 201 (FLT 250.4) (FLT 150.5) c)"
      by (rule linear_aqi_between[OF b w(5) _ e(9,10)]) simp
    thus ?thesis using 5 by (simp only: band5 c_def)
  next
    case 6
    hence b: "0 \<le> c" "c \<le> DBL 500.5" using ord by linarith+
    have "int_range (linear_aqi 400 301 (FLT 350.4) (FLT 250.5) c)"
      by (rule linear_aqi_between[OF b w(6) _ e(11,12)]) simp
    thus ?thesis using 6 by (simp only: band6 c_def)
  next
    case 7
    hence b: "0 \<le> c" "c \<le> DBL 500.5" using ord by linarith+
    have "int_range (linear_aqi 500 401 (FLT 500.4) (FLT 350.5) c)"
      by (rule linear_aqi_between[OF b w(7) _ e(13,14)]) simp
    thus ?thesis using 7 by (simp only: band7 c_def)
  next
    case 8
    have "int_range (linear_aqi 1000 501 (FLT 1000.4) (FLT 500.5) c)"
      by (rule linear_aqi_between[OF r w(8) _ e(15,16)]) simp
    thus ?thesis using 8 by (simp only: band8 c_def)
  qed
qed

lemma pm25toAQI_in_range: "int_range p \<Longrightarrow> int_range (pm25toAQI p)"
  unfolding pm25toAQI_def by (rule pm25toAQI_float_in_range) (rule float_of_int_range, assumption)+

lemma band1_ends:
  "linear_aqi 50 0 (float_of_int 12) (float_of_int 0) 0 = 0"
  "linear_aqi 50 0 (float_of_int 12) (float_of_int 0) 12 = 50"
  by (simp_all add: float_eval)

lemma trunc1_band1:
  assumes "0 \<le> x" "x \<le> 12" shows "0 \<le> trunc1 x" "trunc1 x \<le> 12"
  using trunc1_ge_int[of 0 x] trunc1_le_int[of x 12] assms by simp_all

lemma twelve_lt: "(12::rat) < DBL 12.1"
  by (simp add: float_eval)

lemma aqi_band1:
  assumes "0 \<le> c1" "c1 \<le> c2" "c2 \<le> 12"
  shows "pm25toAQI_float c1 \<le> pm25toAQI_float c2"
    and "0 \<le> pm25toAQI_float c1" and "pm25toAQI_float c2 \<le> 50"
proof -
  let ?L = "linear_aqi 50 0 (float_of_int 12) (float_of_int 0)"
  have t1: "0 \<le> trunc1 c1" "trunc1 c1 \<le> 12" using assms by (auto intro: trunc1_band1)
  have t2: "0 \<le> trunc1 c2" "trunc1 c2 \<le> 12" using assms by (auto intro: trunc1_band1)
  have "trunc1 c1 < DBL 12.1" using t1(2) twelve_lt by (rule le_less_trans)
  with t1(1) have e1: "pm25toAQI_float c1 = ?L (trunc1 c1)" by (rule band1)
  have "trunc1 c2 < DBL 12.1" using t2(2) twelve_lt by (rule le_less_trans)
  with t2(1) have e2: "pm25toAQI_float c2 = ?L (trunc1 c2)" by (rule band1)
  have m: "\<And>a b. a \<le> b \<Longrightarrow> ?L a \<le> ?L b"
    by (rule linear_aqi_mono[OF band_widths(1)]) simp
  show "pm25toAQI_float c1 \<le> pm25toAQI_float c2"
    unfolding e1 e2 by (rule m) (rule trunc1_mono, rule assms)
  show "0 \<le> pm25toAQI_float c1" using m[OF t1(1)] unfolding e1 band1_ends .
  show "pm25toAQI_float c2 \<le> 50" using m[OF t2(2)] unfolding e2 band1_ends .
qed

lemmas aqi_eval = float_eval pm25toAQI_def pm25toAQI_float_def pm25toAQI_call_def
  int_of_float_def trunc1_def

text \<open>
  Claim C7. For all concentrations \<open>c1 \<le> c2\<close> in \<open>[0, 12.0]\<close> the converter gives
  \<open>aqi c1 \<le> aqi c2\<close>, and every result on \<open>[0, 12.0]\<close> lies in \<open>[0, 50]\<close>. Proved for
  every floating value handed to the body of the converter, and for the integer
  concentrations \<^verbatim>\<open>pm25toAQI\<close> receives.
\<close>

theorem band1_monotone_bounded:
  "(0 \<le> c1 \<and> c1 \<le> c2 \<and> c2 \<le> 12 \<longrightarrow>
      pm25toAQI_float c1 \<le> pm25toAQI_float c2 \<and>
      0 \<le> pm25toAQI_float c1 \<and> pm25toAQI_float c1 \<le> 50 \<and>
      0 \<le> pm25toAQI_float c2 \<and> pm25toAQI_float c2 \<le> 50) \<and>
   (0 \<le> p1 \<and> p1 \<le> p2 \<and> p2 \<le> 12 \<longrightarrow>
      pm25toAQI p1 \<le> pm25toAQI p2 \<and>
      0 \<le> pm25toAQI p1 \<and> pm25toAQI p1 \<le> 50 \<and>
      0 \<le> pm25toAQI p2 \<and> pm25toAQI p2 \<le> 50)"
proof (intro conjI impI)
  assume a: "0 \<le> c1 \<and> c1 \<le> c2 \<and> c2 \<le> 12"
  hence b: "0 \<le> c1" "c1 \<le> c2" "c2 \<le> 12" "0 \<le> c2" "c1 \<le> 12" by auto
  show "pm25toAQI_float c1 \<le> pm25toAQI_float c2" using b by (intro aqi_band1(1))
  show "0 \<le> pm25toAQI_float c1" using b by (intro aqi_band1(2)[of c1 c2])
  show "pm25toAQI_float c1 \<le> 50" using b by (intro aqi_band1(3)[of c1 c1]) auto
  show "0 \<le> pm25toAQI_float c2" using b by (intro aqi_band1(2)[of c2 c2]) auto
  show "pm25toAQI_float c2 \<le> 50" using b by (intro aqi_band1(3)[of c1 c2])
next
  assume a: "0 \<le> p1 \<and> p1 \<le> p2 \<and> p2 \<le> 12"
  hence f: "float_of_int p1 = of_int p1" "float_of_int p2 = of_int p2"
    by (auto intro!: float_of_int_small)
  have b: "(0::rat) \<le> of_int p1" "(of_int p1 :: rat) \<le> of_int p2" "(of_int p2 :: rat) \<le> 12"
    "(0::rat) \<le> of_int p2" "(of_int p1 :: rat) \<le> 12" using a by auto
  show "pm25toAQI p1 \<le> pm25toAQI p2" unfolding pm25toAQI_def f using b by (intro aqi_band1(1))
  show "0 \<le> pm25toAQI p1" unfolding pm25toAQI_def f using b by (intro aqi_band1(2)[of _ "of_int p2"])
  show "pm25toAQI p1 \<le> 50" unfolding pm25toAQI_def f using b by (intro aqi_band1(3)[of "of_int p1"]) auto
  show "0 \<le> pm25toAQI p2" unfolding pm25toAQI_def f using b by (intro aqi_band1(2)[of _ "of_int p2"]) auto
  show "pm25toAQI p2 \<le> 50" unfolding pm25toAQI_def f using b by (intro aqi_band1(3)[of "of_int p1"])
qed

theorem band1_monotone_bounded_witness:
  "(0::rat) \<le> 7/2 \<and> (7/2::rat) \<le> 83/10 \<and> (83/10::rat) \<le> 12 \<and>
   pm25toAQI_float (7/2) \<le> pm25toAQI_float (83/10) \<and>
   0 \<le> pm25toAQI_float (7/2) \<and> pm25toAQI_float (83/10) \<le> 50 \<and>
   (0::int) \<le> 3 \<and> (3::int) \<le> 8 \<and> (8::int) \<le> 12 \<and>
   pm25toAQI 3 \<le> pm25toAQI 8 \<and> 0 \<le> pm25toAQI 3 \<and> pm25toAQI 8 \<le> 50"
  using band1_monotone_bounded[of "7/2" "83/10" 3 8] by simp

text \<open>
  Claim C1, as stated: the converter returns 0, 50, 51, 500 and 1000 at 0, 12.0, 12.1, 500.4
  and 1000.4. \<^verbatim>\<open>pm25toAQI\<close> takes an \<^verbatim>\<open>int\<close>; a call with 12.1 converts the argument
  to 12 and returns 50, so the five equations do not hold together.
\<close>

theorem breakpoint_12_1_counterexample:
  "\<not> (pm25toAQI_call 0 = 0 \<and> pm25toAQI_call (DBL 12.0) = 50 \<and> pm25toAQI_call (DBL 12.1) = 51
      \<and> pm25toAQI_call (DBL 500.4) = 500 \<and> pm25toAQI_call (DBL 1000.4) = 1000)"
  by (simp add: aqi_eval)

text \<open>
  Claim C1, amended. At the integer breakpoints the converter is exact:
  \<^verbatim>\<open>pm25toAQI\<close> gives 0 at 0, 50 at 12 (the last point of band 1), 53 at 13 (the first
  integer of band 2), 500 at 500 and 1000 at 1000. A call with 12.1, 500.4 or 1000.4
  converts the argument to 12, 500 and 1000 and returns 50, 500 and 1000. The
  interpolation itself, applied after the cast to the float values 12.1, 500.4 and 1000.4,
  gives 51, 500 and 1000.
\<close>

theorem breakpoint_values:
  "pm25toAQI 0 = 0 \<and> pm25toAQI 12 = 50 \<and> pm25toAQI 13 = 53
   \<and> pm25toAQI 500 = 500 \<and> pm25toAQI 1000 = 1000
   \<and> pm25toAQI_call (DBL 12.1) = 50 \<and> pm25toAQI_call (DBL 500.4) = 500
   \<and> pm25toAQI_call (DBL 1000.4) = 1000
   \<and> pm25toAQI_float (FLT 12.1) = 51 \<and> pm25toAQI_float (FLT 500.4) = 500
   \<and> pm25toAQI_float (FLT 1000.4) = 1000"
  by (simp add: aqi_eval)


lemma table_consts: "FLT 12 = float_of_int 12" "FLT 0 = float_of_int 0" "DBL 0 = 0"
  by (simp_all add: float_eval)

lemma case_prod_if:
  "case_prod f (if b then x else y) = (if b then case_prod f x else case_prod f y)"
  by simp

lemma pm25toAQI_float_table: "pm25toAQI_float x = aqi_table x"
  unfolding aqi_table_def breakpoints_def pm25toAQI_float_unfold Let_def classify.simps
    case_prod_if prod.case table_consts ..

lemma pm25toAQI_table: "pm25toAQI p = aqi_table (float_of_int p)"
  unfolding pm25toAQI_def by (rule pm25toAQI_float_table)

lemma pm25toAQI_call_table: "pm25toAQI_call x = aqi_table (float_of_int (int_of_float x))"
  unfolding pm25toAQI_call_def by (rule pm25toAQI_table)

lemma trunc1_float_of_int:
  assumes "\<bar>q\<bar> \<le> 1677721" shows "trunc1 (float_of_int q) = of_int q"
proof -
  have "float_of_int q = of_int q" using assms by (intro float_of_int_small) simp
  thus ?thesis using assms by (simp add: trunc1_of_int)
qed

lemma int_of_float_12_05: "int_of_float (DBL 12.05) = 12"
  by (simp add: int_of_float_def float_eval)

lemma trunc1_12_5: "trunc1 (FLT 12.5) = 25 / 2"
  by (simp add: trunc1_def float_eval)

lemma classify_12_5: "classify breakpoints (25 / 2) = (51, 100, 12.1, 35.4)"
  by (simp add: breakpoints_def float_eval)

lemma band2_12_5: "linear_aqi 100 51 (FLT 35.4) (FLT 12.1) (25 / 2) = 52"
  by (simp add: float_eval)

lemma aqi_table_12_5: "aqi_table (FLT 12.5) = 52"
  unfolding aqi_table_def trunc1_12_5 Let_def classify_12_5 prod.case by (rule band2_12_5)

lemma pm25toAQI_call_12_5: "pm25toAQI_call (DBL 12.5) = 50"
  by (simp add: aqi_eval)

text \<open>
  Claim C2, as stated: for every input concentration the converter truncates to one decimal
  place, \<^verbatim>\<open>floor(10 * x) / 10\<close>, and classifies the truncated value. At 12.5 the truncated
  value is 12.5, in band 2, whose interpolation gives 52; the code, called with 12.5,
  converts the argument to the \<^verbatim>\<open>int\<close> 12 and returns 50.
\<close>

theorem one_decimal_truncation_counterexample:
  "trunc1 (FLT 12.5) = 25 / 2 \<and> aqi_table (FLT 12.5) = 52 \<and> pm25toAQI_call (DBL 12.5) = 50
   \<and> pm25toAQI_call (DBL 12.5) \<noteq> aqi_table (FLT 12.5)"
  unfolding trunc1_12_5 aqi_table_12_5 pm25toAQI_call_12_5 by simp

text \<open>
  Claim C2, amended. The converter takes an \<^verbatim>\<open>int\<close>. For every \<^verbatim>\<open>int\<close> input it computes
  \<^verbatim>\<open>floor(10 * float(pm25)) / 10\<close>, which leaves an integer concentration unchanged, and
  classifies that value by the table of bands. A concentration with a fraction reaches the
  converter only through the conversion of the argument to \<^verbatim>\<open>int\<close>, which discards the
  whole fraction: the result for any argument is the table's result for its integer part.
  An input of 12.05 becomes 12 and yields the result of band 1, which is 50, not an
  interpolation in band 2; so does an input of 12.5.
\<close>

theorem integer_part_then_classify:
  "pm25toAQI p = aqi_table (float_of_int p)
   \<and> (\<bar>q\<bar> \<le> 1677721 \<longrightarrow> trunc1 (float_of_int q) = of_int q)
   \<and> pm25toAQI_call x = aqi_table (float_of_int (int_of_float x))
   \<and> pm25toAQI_call x = pm25toAQI (int_of_float x)
   \<and> int_of_float (DBL 12.05) = 12
   \<and> classify breakpoints (trunc1 (float_of_int 12)) = (0, 50, 0, 12)
   \<and> pm25toAQI_call (DBL 12.05) = linear_aqi 50 0 (float_of_int 12) (float_of_int 0) 12
   \<and> pm25toAQI_call (DBL 12.05) = 50
   \<and> pm25toAQI_call (DBL 12.5) = 50"
proof (intro conjI impI)
  show "pm25toAQI p = aqi_table (float_of_int p)" by (rule pm25toAQI_table)
  show "pm25toAQI_call x = aqi_table (float_of_int (int_of_float x))"
    by (rule pm25toAQI_call_table)
  show "pm25toAQI_call x = pm25toAQI (int_of_float x)" by (rule pm25toAQI_call_def)
  show "int_of_float (DBL 12.05) = 12" by (rule int_of_float_12_05)
  have t: "trunc1 (float_of_int 12) = 12" using trunc1_float_of_int[of 12] by simp
  show "classify breakpoints (trunc1 (float_of_int 12)) = (0, 50, 0, 12)"
    unfolding t by (simp add: breakpoints_def float_eval)
  have "(0::rat) \<le> 12" by simp
  from band1[of "float_of_int 12", unfolded t, OF this twelve_lt]
  have "pm25toAQI 12 = linear_aqi 50 0 (float_of_int 12) (float_of_int 0) 12"
    unfolding pm25toAQI_def .
  thus "pm25toAQI_call (DBL 12.05) = linear_aqi 50 0 (float_of_int 12) (float_of_int 0) 12"
    unfolding pm25toAQI_call_def int_of_float_12_05 .
  show "pm25toAQI_call (DBL 12.05) = 50" by (simp add: aqi_eval)
  show "pm25toAQI_call (DBL 12.5) = 50" by (rule pm25toAQI_call_12_5)
next
  assume "\<bar>q\<bar> \<le> 1677721"
  thus "trunc1 (float_of_int q) = of_int q" by (rule trunc1_float_of_int)
qed

theorem integer_part_then_classify_witness:
  "\<bar>12 :: int\<bar> \<le> 1677721 \<and> trunc1 (float_of_int 12) = 12
   \<and> pm25toAQI 12 = aqi_table (float_of_int 12)
   \<and> pm25toAQI_call (25 / 2) = aqi_table (float_of_int (int_of_float (25 / 2)))"
  using integer_part_then_classify[of 12 12 "25 / 2"] by simp

lemma half_le_501: "DBL 500.5 \<le> 501"
  by (simp add: float_eval)

lemma trunc1_above:
  assumes "501 \<le> x" shows "DBL 500.5 \<le> trunc1 x"
proof -
  have "(of_int 501 :: rat) \<le> trunc1 x" by (rule trunc1_ge_int) (use assms in simp_all)
  thus ?thesis using half_le_501 by simp
qed

lemma pm25toAQI_float_outside:
  assumes "x < 0 \<or> 501 \<le> x"
  shows "pm25toAQI_float x = linear_aqi 1000 501 (FLT 1000.4) (FLT 500.5) (trunc1 x)"
proof (rule band8)
  show "trunc1 x < 0 \<or> DBL 500.5 \<le> trunc1 x"
    using assms trunc1_neg[of x] trunc1_above[of x] by blast
qed

lemma float_of_int_neg: "p < 0 \<Longrightarrow> float_of_int p < 0"
  unfolding float_of_int_def by (rule f32_neg) simp

lemma float_of_int_ge: "n \<le> p \<Longrightarrow> \<bar>n\<bar> \<le> 16777216 \<Longrightarrow> of_int n \<le> float_of_int p"
  unfolding float_of_int_def by (rule f32_ge_int) simp_all

lemma float_of_int_le: "p \<le> n \<Longrightarrow> \<bar>n\<bar> \<le> 16777216 \<Longrightarrow> float_of_int p \<le> of_int n"
  unfolding float_of_int_def by (rule f32_le_int) simp_all

lemma pm25toAQI_outside:
  assumes "p < 0 \<or> 501 \<le> p"
  shows "pm25toAQI p = linear_aqi 1000 501 (FLT 1000.4) (FLT 500.5) (trunc1 (float_of_int p))"
  unfolding pm25toAQI_def
proof (rule pm25toAQI_float_outside)
  show "float_of_int p < 0 \<or> 501 \<le> float_of_int p"
    using assms float_of_int_neg[of p] float_of_int_ge[of 501 p] by auto
qed

lemma int_of_float_below: "x \<le> - 1 \<Longrightarrow> int_of_float x < 0"
  unfolding int_of_float_def by (simp add: ceiling_less_iff)

lemma int_of_float_above: "501 \<le> x \<Longrightarrow> 501 \<le> int_of_float x"
  unfolding int_of_float_def by (simp add: le_floor_iff)

lemma int_of_float_fraction: "- 1 < x \<Longrightarrow> x < 1 \<Longrightarrow> int_of_float x = 0"
  unfolding int_of_float_def by (auto simp: floor_eq_iff ceiling_eq_iff)

lemma pm25toAQI_call_outside:
  assumes "x \<le> - 1 \<or> 501 \<le> x"
  shows "pm25toAQI_call x
       = linear_aqi 1000 501 (FLT 1000.4) (FLT 500.5) (trunc1 (float_of_int (int_of_float x)))"
  unfolding pm25toAQI_call_def
proof (rule pm25toAQI_outside)
  show "int_of_float x < 0 \<or> 501 \<le> int_of_float x"
    using assms int_of_float_below[of x] int_of_float_above[of x] by blast
qed

lemma call_at_minus_half: "pm25toAQI_call (DBL (- 0.5)) = 0"
  by (simp add: aqi_eval)

lemma trunc1_at_minus_half: "trunc1 (FLT (- 0.5)) = - 1 / 2"
  by (simp add: trunc1_def float_eval)

lemma last_band_at_minus_half: "linear_aqi 1000 501 (FLT 1000.4) (FLT 500.5) (- 1 / 2) = 1"
  by (simp add: float_eval)

text \<open>
  Claim C8, as stated: for every concentration below 0 the converter extrapolates with the
  formula of the last band. Called with -0.5 the code converts the argument to the
  \<^verbatim>\<open>int\<close> 0 and returns 0 from band 1, where the formula of the last band gives 1.
\<close>

theorem below_zero_fraction_counterexample:
  "DBL (- 0.5) < 0 \<and> pm25toAQI_call (DBL (- 0.5)) = 0
   \<and> linear_aqi 1000 501 (FLT 1000.4) (FLT 500.5) (trunc1 (FLT (- 0.5))) = 1"
proof -
  have "DBL (- 0.5) < 0" by (simp add: float_eval)
  thus ?thesis unfolding call_at_minus_half trunc1_at_minus_half last_band_at_minus_half by simp
qed

text \<open>
  Claim C8, amended. The converter takes an \<^verbatim>\<open>int\<close>. For every \<^verbatim>\<open>int\<close> concentration
  below 0 and every \<^verbatim>\<open>int\<close> concentration above 1000 it extrapolates with the formula of
  the last band, \<^verbatim>\<open>linear(1000, 501, 1000.4, 500.5, c)\<close>, without clamping, and still returns
  a number: the result leaves \<open>[0, 1000]\<close> on both sides (-98 at -100, 1998 at 2000) and
  stays inside the range of \<^verbatim>\<open>int\<close>. A call with a fractional argument is classified by
  its integer part: from -1 down and above 1000.4 it takes the last band, while an
  argument strictly between -1 and 0 becomes 0 and gets 0 from band 1.
\<close>

theorem integer_out_of_range_extrapolates:
  "(p < 0 \<or> 1000 < p \<longrightarrow>
      pm25toAQI p = linear_aqi 1000 501 (FLT 1000.4) (FLT 500.5) (trunc1 (float_of_int p))) \<and>
   (int_range q \<and> (q < 0 \<or> 1000 < q) \<longrightarrow> int_range (pm25toAQI q)) \<and>
   pm25toAQI (- 100) = - 98 \<and> pm25toAQI 2000 = 1998 \<and>
   (x \<le> - 1 \<or> 1000.4 < x \<longrightarrow>
      pm25toAQI_call x
        = linear_aqi 1000 501 (FLT 1000.4) (FLT 500.5) (trunc1 (float_of_int (int_of_float x)))) \<and>
   (- 1 < y \<and> y < 0 \<longrightarrow> pm25toAQI_call y = 0)"
proof (intro conjI impI)
  assume "p < 0 \<or> 1000 < p"
  hence "p < 0 \<or> 501 \<le> p" by auto
  thus "pm25toAQI p = linear_aqi 1000 501 (FLT 1000.4) (FLT 500.5) (trunc1 (float_of_int p))"
    by (rule pm25toAQI_outside)
next
  assume "int_range q \<and> (q < 0 \<or> 1000 < q)"
  thus "int_range (pm25toAQI q)" by (simp add: pm25toAQI_in_range)
next
  show "pm25toAQI (- 100) = - 98" by (simp add: aqi_eval)
  show "pm25toAQI 2000 = 1998" by (simp add: aqi_eval)
next
  assume "x \<le> - 1 \<or> 1000.4 < x"
  hence "x \<le> - 1 \<or> 501 \<le> x" by auto
  thus "pm25toAQI_call x
        = linear_aqi 1000 501 (FLT 1000.4) (FLT 500.5) (trunc1 (float_of_int (int_of_float x)))"
    by (rule pm25toAQI_call_outside)
next
  assume "- 1 < y \<and> y < 0"
  hence "int_of_float y = 0" by (intro int_of_float_fraction) auto
  moreover have "pm25toAQI 0 = 0" by (simp add: aqi_eval)
  ultimately show "pm25toAQI_call y = 0" by (simp add: pm25toAQI_call_def)
qed

theorem integer_out_of_range_extrapolates_witness:
  "((2000 :: int) < 0 \<or> (1000 :: int) < 2000) \<and>
   pm25toAQI 2000 = linear_aqi 1000 501 (FLT 1000.4) (FLT 500.5) (trunc1 (float_of_int 2000)) \<and>
   int_range (- 100) \<and> ((- 100 :: int) < 0 \<or> (1000 :: int) < - 100) \<and>
   int_range (pm25toAQI (- 100)) \<and>
   ((- 5 / 2 :: rat) \<le> - 1 \<or> (1000.4 :: rat) < - 5 / 2) \<and>
   pm25toAQI_call (- 5 / 2)
     = linear_aqi 1000 501 (FLT 1000.4) (FLT 500.5) (trunc1 (float_of_int (int_of_float (- 5 / 2)))) \<and>
   (- 1 :: rat) < - 1 / 2 \<and> (- 1 / 2 :: rat) < 0 \<and> pm25toAQI_call (- 1 / 2) = 0"
  using integer_out_of_range_extrapolates[of 2000 "- 100" "- 5 / 2" "- 1 / 2"]
  by (simp add: int_range_def)

lemma pm25toAQI_band7:
  assumes "351 \<le> p" "p \<le> 500"
  shows "pm25toAQI p = linear_aqi 500 401 (FLT 500.4) (FLT 350.5) (trunc1 (float_of_int p))"
  unfolding pm25toAQI_def
proof (rule band7)
  have f: "float_of_int p = of_int p" using assms by (intro float_of_int_small) auto
  have t: "trunc1 (of_int p) = of_int p" using assms by (intro trunc1_of_int) auto
  have "DBL 350.5 \<le> 351" "(500::rat) < DBL 500.5" by (simp_all add: float_eval)
  moreover have "(351::rat) \<le> of_int p" "(of_int p :: rat) \<le> 500" using assms by auto
  ultimately show "DBL 350.5 \<le> trunc1 (float_of_int p)" "trunc1 (float_of_int p) < DBL 500.5"
    unfolding f t by linarith+
qed

text \<open>
  Claim C9, as stated: every value greater than or equal to 350.5 is classified by the
  last band. At 400 the code takes the seventh band and returns 434, where the formula of
  the last band would give 401.
\<close>

theorem catch_all_from_350_5_counterexample:
  "DBL 350.5 \<le> trunc1 (float_of_int 400) \<and> pm25toAQI 400 = 434 \<and>
   linear_aqi 1000 501 (FLT 1000.4) (FLT 500.5) (trunc1 (float_of_int 400)) = 401"
  by (simp add: aqi_eval linear_aqi_def)

text \<open>
  Claim C9, amended. The converter is total: for every \<^verbatim>\<open>int\<close> input it returns a
  number, with no error path, and the number fits the \<^verbatim>\<open>int\<close> result. Every truncated
  value greater than or equal to 500.5 (every input from 501 on) is classified by the
  last, open-ended band; the truncated values from 350.5 up to 500.5 (the inputs 351 to
  500) are classified by the seventh band, \<open>[401, 500]\<close> over \<open>[350.5, 500.4]\<close>.
\<close>

theorem total_with_catch_all_from_500_5:
  "(int_range p \<longrightarrow> int_range (pm25toAQI p)) \<and>
   (DBL 500.5 \<le> trunc1 x \<longrightarrow>
      pm25toAQI_float x = linear_aqi 1000 501 (FLT 1000.4) (FLT 500.5) (trunc1 x)) \<and>
   (DBL 350.5 \<le> trunc1 y \<and> trunc1 y < DBL 500.5 \<longrightarrow>
      pm25toAQI_float y = linear_aqi 500 401 (FLT 500.4) (FLT 350.5) (trunc1 y)) \<and>
   (501 \<le> q \<longrightarrow>
      pm25toAQI q = linear_aqi 1000 501 (FLT 1000.4) (FLT 500.5) (trunc1 (float_of_int q))) \<and>
   (351 \<le> r \<and> r \<le> 500 \<longrightarrow>
      pm25toAQI r = linear_aqi 500 401 (FLT 500.4) (FLT 350.5) (trunc1 (float_of_int r)))"
proof (intro conjI impI)
  assume "int_range p" thus "int_range (pm25toAQI p)" by (rule pm25toAQI_in_range)
next
  assume "DBL 500.5 \<le> trunc1 x"
  thus "pm25toAQI_float x = linear_aqi 1000 501 (FLT 1000.4) (FLT 500.5) (trunc1 x)"
    by (intro band8) simp
next
  assume "DBL 350.5 \<le> trunc1 y \<and> trunc1 y < DBL 500.5"
  thus "pm25toAQI_float y = linear_aqi 500 401 (FLT 500.4) (FLT 350.5) (trunc1 y)"
    by (intro band7) simp_all
next
  assume "501 \<le> q"
  thus "pm25toAQI q = linear_aqi 1000 501 (FLT 1000.4) (FLT 500.5) (trunc1 (float_of_int q))"
    by (intro pm25toAQI_outside) simp
next
  assume "351 \<le> r \<and> r \<le> 500"
  thus "pm25toAQI r = linear_aqi 500 401 (FLT 500.4) (FLT 350.5) (trunc1 (float_of_int r))"
    by (intro pm25toAQI_band7) simp_all
qed

theorem total_with_catch_all_from_500_5_witness:
  "int_range 2147483647 \<and> int_range (pm25toAQI 2147483647) \<and>
   DBL 500.5 \<le> trunc1 600 \<and>
   pm25toAQI_float 600 = linear_aqi 1000 501 (FLT 1000.4) (FLT 500.5) (trunc1 600) \<and>
   DBL 350.5 \<le> trunc1 400 \<and> trunc1 400 < DBL 500.5 \<and>
   pm25toAQI_float 400 = linear_aqi 500 401 (FLT 500.4) (FLT 350.5) (trunc1 400) \<and>
   (501 :: int) \<le> 501 \<and>
   pm25toAQI 501 = linear_aqi 1000 501 (FLT 1000.4) (FLT 500.5) (trunc1 (float_of_int 501)) \<and>
   (351 :: int) \<le> 351 \<and> (351 :: int) \<le> 500 \<and>
   pm25toAQI 351 = linear_aqi 500 401 (FLT 500.4) (FLT 350.5) (trunc1 (float_of_int 351))"
proof -
  have h: "int_range 2147483647" "DBL 500.5 \<le> trunc1 600"
    "DBL 350.5 \<le> trunc1 400" "trunc1 400 < DBL 500.5"
    by (simp_all add: int_range_def trunc1_def float_eval)
  show ?thesis
    using h total_with_catch_all_from_500_5[of 2147483647 600 400 501 351] by simp
qed



subsection \<open>Reading traces\<close>

lemma publishes_append: "publishes (xs @ ys) = publishes xs @ publishes ys"
  by (induction xs rule: publishes.induct) simp_all

lemma delays_append: "delays (xs @ ys) = delays xs @ delays ys"
  by (induction xs rule: delays.induct) simp_all

lemma reads_append: "reads (xs @ ys) = reads xs @ reads ys"
  by (induction xs rule: reads.induct) simp_all

lemma renders_append: "renders (xs @ ys) = renders xs @ renders ys"
  by (induction xs rule: renders.induct) simp_all

subsection \<open>Hexadecimal text\<close>

lemma digit_char_hex: "d < 16 \<Longrightarrow> digit_char d \<in> set ''0123456789abcdef''"
  unfolding digit_char_def by (rule nth_mem) simp

lemma digits_of_16_chars: "set (digits_of 16 n) \<subseteq> set ''0123456789abcdef''"
proof (induction "16::nat" n rule: digits_of.induct)
  case (1 n)
  show ?case
  proof (cases "n < 16")
    case True
    thus ?thesis using digit_char_hex[of n] by (subst digits_of.simps) simp
  next
    case False
    have "digit_char (n mod 16) \<in> set ''0123456789abcdef''" by (rule digit_char_hex) simp
    thus ?thesis using False 1 by (subst digits_of.simps) simp
  qed
qed

lemma digits_of_nonempty: "digits_of b n \<noteq> []"
  by (subst digits_of.simps) simp

lemma digits_of_16_length: "n < 16 ^ k \<Longrightarrow> 0 < k \<Longrightarrow> length (digits_of 16 n) \<le> k"
proof (induction k arbitrary: n)
  case 0 thus ?case by simp
next
  case (Suc k)
  show ?case
  proof (cases "n < 16")
    case True thus ?thesis by (subst digits_of.simps) simp
  next
    case False
    hence "0 < k" using Suc.prems by (cases k) auto
    moreover have "n div 16 < 16 ^ k" using Suc.prems by (simp add: less_mult_imp_div_less mult.commute)
    ultimately have "length (digits_of 16 (n div 16)) \<le> k" by (intro Suc.IH)
    thus ?thesis using False by (subst digits_of.simps) simp
  qed
qed

lemma String_hex_lower: "is_lower_hex (String_hex n)"
proof -
  have "\<forall>c \<in> set (digits_of 16 n). c \<in> set ''0123456789abcdef''"
    by (rule ballI) (erule subsetD[OF digits_of_16_chars])
  with digits_of_nonempty[of 16 n] show ?thesis
    unfolding is_lower_hex_def String_hex_def list_all_iff by (rule conjI)
qed

lemma String_hex_chip_length: "length (String_hex (unat (chip :: 32 word))) \<le> 8"
proof -
  have "unat chip < 2 ^ 32" using unsigned_less[of chip] by simp
  hence "unat chip < 16 ^ 8" by simp
  thus ?thesis unfolding String_hex_def by (intro digits_of_16_length) simp_all
qed

lemma deviceid_setup: "deviceid (setup_device chip) = String_hex (unat chip)"
  using String_hex_chip_length[of chip]
  by (simp add: setup_device_def initial_def lcd_def emit_def toCharArray_def Let_def)

lemma trace_setup:
  "trace (setup_device chip) = [Lcd ''Initializing'' ''Device:'' (String_hex (unat chip)) [] []]"
  using String_hex_chip_length[of chip]
  by (simp add: setup_device_def initial_def lcd_def emit_def toCharArray_def Let_def)

section \<open>Properties of the device loop\<close>

subsection \<open>What a tick appends to the trace\<close>

lemma sample_CO2_trace:
  "trace (sample_CO2 cfg inp st) = trace st @ (if hasCO2 cfg then [ReadCO2] else [])"
  by (simp add: sample_CO2_def emit_def Let_def)

lemma sample_PM_trace:
  "trace (sample_PM cfg inp st) = trace st @ (if hasPM cfg then [ReadPM] else [])"
  by (simp add: sample_PM_def emit_def Let_def)

lemma sample_SHT_trace:
  "trace (sample_SHT cfg inp st) = trace st @ (if hasSHT cfg then [ReadSHT] else [])"
  by (simp add: sample_SHT_def emit_def Let_def split: prod.split)

lemma sample_reset_trace: "trace (sample_reset cfg inp st) = trace st"
  by (simp add: sample_reset_def)

lemma publish_CO2_trace:
  "trace (publish_CO2 cfg inp st) = trace st @
     (if hasCO2 cfg then
        [Publish (toCharArray (topic_prefix st @ ''co2'') 64) (toCharArray (String_int (CO2 st)) 64)
           True (publish_result inp (toCharArray (topic_prefix st @ ''co2'') 64))]
      else [])"
  by (simp add: publish_CO2_def client_publish_def emit_def)

lemma publish_CO2_fields:
  "topic_prefix (publish_CO2 cfg inp st) = topic_prefix st"
  "AQI (publish_CO2 cfg inp st) = AQI st" "PM2 (publish_CO2 cfg inp st) = PM2 st"
  "CO2 (publish_CO2 cfg inp st) = CO2 st"
  "Humidity (publish_CO2 cfg inp st) = Humidity st"
  "Temperature (publish_CO2 cfg inp st) = Temperature st"
  "msLAST_METRIC (publish_CO2 cfg inp st) = msLAST_METRIC st"
  by (simp_all add: publish_CO2_def client_publish_def emit_def)

lemma publish_PM_trace:
  "trace (publish_PM cfg inp st) = trace st @
     (if hasPM cfg then
        [Publish (toCharArray (topic_prefix st @ ''aqi'') 64) (toCharArray (String_int (AQI st)) 64)
           True (publish_result inp (toCharArray (topic_prefix st @ ''aqi'') 64)),
         Publish (toCharArray (topic_prefix st @ ''pm25'') 64) (toCharArray (String_int (PM2 st)) 64)
           True (publish_result inp (toCharArray (topic_prefix st @ ''pm25'') 64))]
      else [])"
  by (simp add: publish_PM_def client_publish_def emit_def)

lemma publish_PM_fields:
  "topic_prefix (publish_PM cfg inp st) = topic_prefix st"
  "AQI (publish_PM cfg inp st) = AQI st" "PM2 (publish_PM cfg inp st) = PM2 st"
  "CO2 (publish_PM cfg inp st) = CO2 st"
  "Humidity (publish_PM cfg inp st) = Humidity st"
  "Temperature (publish_PM cfg inp st) = Temperature st"
  "msLAST_METRIC (publish_PM cfg inp st) = msLAST_METRIC st"
  by (simp_all add: publish_PM_def client_publish_def emit_def)

lemma publish_SHT_trace:
  "trace (publish_SHT cfg inp st) = trace st @
     (if hasSHT cfg then
        [Publish (toCharArray (topic_prefix st @ ''humidity'') 64)
           (toCharArray (String_int (Humidity st)) 64)
           True (publish_result inp (toCharArray (topic_prefix st @ ''humidity'') 64)),
         Publish (toCharArray (topic_prefix st @ ''temperature'') 64)
           (toCharArray (String_float cfg (Temperature st)) 64)
           True (publish_result inp (toCharArray (topic_prefix st @ ''temperature'') 64))]
      else [])"
  by (simp add: publish_SHT_def client_publish_def emit_def)

lemma publish_SHT_fields:
  "topic_prefix (publish_SHT cfg inp st) = topic_prefix st"
  "AQI (publish_SHT cfg inp st) = AQI st" "PM2 (publish_SHT cfg inp st) = PM2 st"
  "CO2 (publish_SHT cfg inp st) = CO2 st"
  "Humidity (publish_SHT cfg inp st) = Humidity st"
  "Temperature (publish_SHT cfg inp st) = Temperature st"
  "msLAST_METRIC (publish_SHT cfg inp st) = msLAST_METRIC st"
  by (simp_all add: publish_SHT_def client_publish_def emit_def)

lemma publish_requests:
  assumes "publish_due cfg inp st"
  shows "publishes (trace (publish cfg inp st))
       = publishes (trace st) @ map (request_of cfg st) (metrics cfg)"
  using assms
  by (simp add: publish_def publish_due_def publish_SHT_trace publish_PM_trace publish_CO2_trace
      publish_PM_fields publish_CO2_fields publishes_append metrics_def request_of_def payload_of_def)

lemma publish_timestamp:
  assumes "publish_due cfg inp st"
  shows "msLAST_METRIC (publish cfg inp st) = ms_publish_set inp"
  using assms
  by (simp add: publish_def publish_due_def publish_SHT_fields publish_PM_fields publish_CO2_fields)


lemma sample_trace:
  "trace (sample cfg inp st) =
     (if sample_due inp st then
        trace st @ sensor_reads cfg @
          [Lcd (ln1 (sample cfg inp st)) (ln2 (sample cfg inp st)) (ln3 (sample cfg inp st))
               (ln4 (sample cfg inp st)) (ln5 (sample cfg inp st))]
      else trace st)"
  by (simp add: sample_def sample_due_def lcd_def emit_def Let_def sensor_reads_def
      sample_SHT_trace sample_PM_trace sample_CO2_trace sample_reset_trace)

lemma sample_extends: "\<exists>evs. trace (sample cfg inp st) = trace st @ evs"
  by (simp add: sample_trace)

lemma publish_extends: "\<exists>evs. trace (publish cfg inp st) = trace st @ evs"
  by (simp add: publish_def publish_SHT_trace publish_PM_trace publish_CO2_trace)

subsection \<open>The connection supervisor\<close>

lemma reconnect_connected: "reconnect True atts st = Some st"
  by (cases atts) auto

lemma reconnect_client_id:
  "reconnect conn ((r, ok) # rest) st =
     (if conn then Some st
      else reconnect ok rest
             (if ok then emit (Connect (client_id r) ok) st
              else emit (Delay 5000) (emit (Connect (client_id r) ok) st)))"
  by (simp add: client_id_def Let_def)


lemma reconnect_three:
  "reconnect False ((r0, False) # (r1, False) # (r2, False) # (r3, True) # rest) st =
     Some (st\<lparr>trace := trace st @
        [Connect (client_id r0) False, Delay 5000, Connect (client_id r1) False, Delay 5000,
         Connect (client_id r2) False, Delay 5000, Connect (client_id r3) True]\<rparr>)"
  by (simp add: reconnect_client_id reconnect_connected emit_def del: reconnect.simps)

lemma demo_client_ids:
  "client_id 70000 = ''airgradient-1171''" "client_id 5 = ''airgradient-5''"
  "client_id 255 = ''airgradient-ff''" "client_id 4096 = ''airgradient-1000''"
  by (simp_all add: client_id_def String_hex_def digits_of.simps digit_char_def)

lemma demo_supervise:
  assumes "connectWIFI cfg" "sendMQTT cfg"
  shows "supervise cfg demo_inputs st = Some (st\<lparr>trace := trace st @
        [Connect ''airgradient-1171'' False, Delay 5000, Connect ''airgradient-5'' False,
         Delay 5000, Connect ''airgradient-ff'' False, Delay 5000,
         Connect ''airgradient-1000'' True, ClientLoop]\<rparr>)"
proof -
  have a: "attempts demo_inputs = [(70000, False), (5, False), (255, False), (4096, True)]"
    "\<not> link_up demo_inputs" by (simp_all add: demo_inputs_def)
  show ?thesis
    using assms
    by (simp add: supervise_def a reconnect_three demo_client_ids emit_def
        del: reconnect.simps)
qed

lemma demo_run:
  assumes "connectWIFI cfg" "sendMQTT cfg"
  shows "\<exists>st. run cfg [demo_inputs] (setup_device chip) = Some st"
  by (simp add: loop_def demo_supervise[OF assms])


lemma demo_publish_due: "publish_due demo_settings demo_inputs (setup_device chip)"
  by (simp add: publish_due_def demo_settings_def demo_inputs_def setup_device_def initial_def
      lcd_def emit_def msPUBLISH_INTERVAL_def Let_def)

text \<open>
  Claim C5. If \<^verbatim>\<open>connect()\<close> fails three consecutive times and then succeeds, the
  connection supervisor returns connected after exactly three waits of 5000 ms, each
  attempt carries a client identifier built from a fresh random number,
  \<^verbatim>\<open>"airgradient-"\<close> followed by lowercase hexadecimal digits, and nothing is published
  before the connection is up: in the pass of \<^verbatim>\<open>loop()\<close> every publish comes after the
  successful attempt, whether or not the publish timer has elapsed.
\<close>

theorem three_backoffs_then_connected:
  "reconnect False ((r0, False) # (r1, False) # (r2, False) # (r3, True) # rest) st =
     Some (st\<lparr>trace := trace st @
        [Connect (client_id r0) False, Delay 5000, Connect (client_id r1) False, Delay 5000,
         Connect (client_id r2) False, Delay 5000, Connect (client_id r3) True]\<rparr>)
   \<and> delays [Connect (client_id r0) False, Delay 5000, Connect (client_id r1) False, Delay 5000,
         Connect (client_id r2) False, Delay 5000, Connect (client_id r3) True] = [5000, 5000, 5000]
   \<and> publishes [Connect (client_id r0) False, Delay 5000, Connect (client_id r1) False, Delay 5000,
         Connect (client_id r2) False, Delay 5000, Connect (client_id r3) True] = []
   \<and> (\<forall>r. client_id r = ''airgradient-'' @ String_hex (r mod 65535)
          \<and> is_lower_hex (String_hex (r mod 65535)))
   \<and> (connectWIFI cfg \<and> sendMQTT cfg \<and> \<not> link_up inp
        \<and> attempts inp = (r0, False) # (r1, False) # (r2, False) # (r3, True) # rest \<longrightarrow>
      (\<exists>st1 evs. loop cfg inp st = Some st1 \<and>
         trace st1 = trace st @
           [Connect (client_id r0) False, Delay 5000, Connect (client_id r1) False, Delay 5000,
            Connect (client_id r2) False, Delay 5000, Connect (client_id r3) True, ClientLoop] @ evs))"
proof (intro conjI allI impI)
  show r: "reconnect False ((r0, False) # (r1, False) # (r2, False) # (r3, True) # rest) st =
     Some (st\<lparr>trace := trace st @
        [Connect (client_id r0) False, Delay 5000, Connect (client_id r1) False, Delay 5000,
         Connect (client_id r2) False, Delay 5000, Connect (client_id r3) True]\<rparr>)"
    by (rule reconnect_three)
  show "delays [Connect (client_id r0) False, Delay 5000, Connect (client_id r1) False, Delay 5000,
         Connect (client_id r2) False, Delay 5000, Connect (client_id r3) True] = [5000, 5000, 5000]"
    by simp
  show "publishes [Connect (client_id r0) False, Delay 5000, Connect (client_id r1) False,
         Delay 5000, Connect (client_id r2) False, Delay 5000, Connect (client_id r3) True] = []"
    by simp
  show "client_id r = ''airgradient-'' @ String_hex (r mod 65535)" for r
    by (simp add: client_id_def)
  show "is_lower_hex (String_hex (r mod 65535))" for r by (rule String_hex_lower)
  assume a: "connectWIFI cfg \<and> sendMQTT cfg \<and> \<not> link_up inp
        \<and> attempts inp = (r0, False) # (r1, False) # (r2, False) # (r3, True) # rest"
  define st0 where "st0 = emit ClientLoop (st\<lparr>trace := trace st @
        [Connect (client_id r0) False, Delay 5000, Connect (client_id r1) False, Delay 5000,
         Connect (client_id r2) False, Delay 5000, Connect (client_id r3) True]\<rparr>)"
  have s: "supervise cfg inp st = Some st0"
    using a by (simp add: supervise_def r st0_def del: reconnect.simps)
  have l: "loop cfg inp st = Some (publish cfg inp (sample cfg inp st0))"
    by (simp add: loop_def s)
  obtain evs where e: "trace (publish cfg inp (sample cfg inp st0)) = trace st0 @ evs"
    using publish_extends sample_extends by (metis append.assoc)
  have "trace st0 = trace st @
        [Connect (client_id r0) False, Delay 5000, Connect (client_id r1) False, Delay 5000,
         Connect (client_id r2) False, Delay 5000, Connect (client_id r3) True, ClientLoop]"
    by (simp add: st0_def emit_def)
  with l e show "\<exists>st1 evs. loop cfg inp st = Some st1 \<and>
         trace st1 = trace st @
           [Connect (client_id r0) False, Delay 5000, Connect (client_id r1) False, Delay 5000,
            Connect (client_id r2) False, Delay 5000, Connect (client_id r3) True, ClientLoop] @ evs"
    by auto
qed

theorem three_backoffs_then_connected_witness:
  "connectWIFI demo_settings \<and> sendMQTT demo_settings \<and> \<not> link_up demo_inputs
   \<and> attempts demo_inputs = [(70000, False), (5, False), (255, False), (4096, True)]
   \<and> publish_due demo_settings demo_inputs (setup_device 0xABCDEF)
   \<and> (\<exists>st1 evs. loop demo_settings demo_inputs (setup_device 0xABCDEF) = Some st1 \<and>
         trace st1 = trace (setup_device 0xABCDEF) @
           [Connect ''airgradient-1171'' False, Delay 5000, Connect ''airgradient-5'' False,
            Delay 5000, Connect ''airgradient-ff'' False, Delay 5000,
            Connect ''airgradient-1000'' True, ClientLoop] @ evs)"
proof -
  have a: "connectWIFI demo_settings" "sendMQTT demo_settings" "\<not> link_up demo_inputs"
    "attempts demo_inputs = [(70000, False), (5, False), (255, False), (4096, True)]"
    by (simp_all add: demo_settings_def demo_inputs_def)
  show ?thesis
    using three_backoffs_then_connected[of 70000 5 255 4096 "[]" "setup_device 0xABCDEF"
        demo_settings demo_inputs] a demo_publish_due[of "0xABCDEF"]
    by (simp add: demo_client_ids)
qed

subsection \<open>The publish tick\<close>

text \<open>
  Claim C4. On every publish tick the last-publish timestamp is set to the current time
  whatever the transport returns, and a publish that returns false neither blocks nor
  repeats nor undoes the publishes of the other metrics: the requests of a tick are those
  of the enabled metrics, each made once, in order, for any outcomes, all of them false
  included.
\<close>

theorem publish_tick_ignores_failures:
  "publish_due cfg inp st \<longrightarrow>
     msLAST_METRIC (publish cfg inp st) = ms_publish_set inp \<and>
     publishes (trace (publish cfg inp st))
       = publishes (trace st) @ map (request_of cfg st) (metrics cfg) \<and>
     msLAST_METRIC (publish cfg (inp\<lparr>publish_result := \<lambda>t. False\<rparr>) st) = ms_publish_set inp \<and>
     publishes (trace (publish cfg (inp\<lparr>publish_result := \<lambda>t. False\<rparr>) st))
       = publishes (trace st) @ map (request_of cfg st) (metrics cfg)"
proof
  assume d: "publish_due cfg inp st"
  hence d': "publish_due cfg (inp\<lparr>publish_result := \<lambda>t. False\<rparr>) st"
    by (simp add: publish_due_def)
  show "msLAST_METRIC (publish cfg inp st) = ms_publish_set inp \<and>
     publishes (trace (publish cfg inp st))
       = publishes (trace st) @ map (request_of cfg st) (metrics cfg) \<and>
     msLAST_METRIC (publish cfg (inp\<lparr>publish_result := \<lambda>t. False\<rparr>) st) = ms_publish_set inp \<and>
     publishes (trace (publish cfg (inp\<lparr>publish_result := \<lambda>t. False\<rparr>) st))
       = publishes (trace st) @ map (request_of cfg st) (metrics cfg)"
    using publish_timestamp[OF d] publish_requests[OF d]
      publish_timestamp[OF d'] publish_requests[OF d'] by simp
qed

theorem publish_tick_ignores_failures_witness:
  "publish_due demo_settings demo_inputs (setup_device 0xABCDEF) \<and>
   publish_result demo_inputs ''co2'' = False \<and>
   msLAST_METRIC (publish demo_settings demo_inputs (setup_device 0xABCDEF)) = 31001 \<and>
   publishes (trace (publish demo_settings demo_inputs (setup_device 0xABCDEF)))
     = [(''co2'', ''0'', True), (''aqi'', ''0'', True), (''pm25'', ''0'', True),
        (''humidity'', ''0'', True), (''temperature'', ''72.50'', True)]"
proof -
  have f: "topic_prefix (setup_device 0xABCDEF) = []" "CO2 (setup_device 0xABCDEF) = 0"
    "AQI (setup_device 0xABCDEF) = 0" "PM2 (setup_device 0xABCDEF) = 0"
    "Humidity (setup_device 0xABCDEF) = 0"
    by (simp_all add: setup_device_def initial_def lcd_def emit_def Let_def)
  have z: "String_int 0 = ''0''" by (simp add: String_int_def digits_of.simps digit_char_def)
  show ?thesis
    using publish_tick_ignores_failures[of demo_settings demo_inputs "setup_device 0xABCDEF"]
      demo_publish_due[of "0xABCDEF"]
    by (simp add: trace_setup metrics_def request_of_def payload_of_def f z toCharArray_def
        demo_settings_def demo_inputs_def)
qed

subsection \<open>The sample tick\<close>

lemmas sample_defs = sample_def sample_due_def sample_reset_def sample_CO2_def sample_PM_def
  sample_SHT_def lcd_def emit_def Let_def

lemma sample_keeps:
  "deviceid (sample cfg inp st) = deviceid st"
  "msLAST_METRIC (sample cfg inp st) = msLAST_METRIC st"
  by (simp_all add: sample_defs split: prod.split)

lemma sample_prefix:
  "sample_due inp st \<Longrightarrow>
     topic_prefix (sample cfg inp st) = mqtt_topic_root cfg @ ''/'' @ deviceid st @ ''/''"
  by (simp add: sample_defs split: prod.split)

lemma sample_CO2_fields:
  assumes "sample_due inp st" "hasCO2 cfg"
  shows "CO2 (sample cfg inp st) = raw_value (co2_read inp)"
    and "ln5 (sample cfg inp st) = ''CO2: '' @ String_int (raw_value (co2_read inp))"
  using assms by (simp_all add: sample_defs split: prod.split)

lemma sample_PM_fields:
  assumes "sample_due inp st" "hasPM cfg"
  shows "PM2 (sample cfg inp st) = raw_value (pm_read inp)"
    and "AQI (sample cfg inp st) = pm25toAQI (raw_value (pm_read inp))"
    and "ln3 (sample cfg inp st) = ''AQI:  '' @ String_int (pm25toAQI (raw_value (pm_read inp)))"
    and "ln4 (sample cfg inp st) = ''PM2: '' @ String_int (raw_value (pm_read inp))"
  using assms by (simp_all add: sample_defs split: prod.split)

lemma sample_SHT_fields:
  assumes "sample_due inp st" "hasSHT cfg"
  shows "Humidity (sample cfg inp st) = snd (raw_value (sht_read inp))"
    and "ln2 (sample cfg inp st) = ''HMD: '' @ String_int (snd (raw_value (sht_read inp))) @ ''%''"
  using assms by (simp_all add: sample_defs split: prod.split)

lemma sample_reads:
  "sample_due inp st \<Longrightarrow> reads (trace (sample cfg inp st)) = reads (trace st) @ sensor_reads cfg"
  by (simp add: sample_trace reads_append sensor_reads_def)

lemma demo_sample_due: "sample_due demo_inputs (setup_device chip)"
  by (simp add: sample_due_def demo_inputs_def setup_device_def initial_def
      lcd_def emit_def msSAMPLE_INTERVAL_def Let_def)

lemma demo_flags:
  "hasCO2 demo_settings" "hasPM demo_settings" "hasSHT demo_settings"
  "connectWIFI demo_settings" "sendMQTT demo_settings"
  "mqtt_topic_root demo_settings = ''airgradient''"
  by (simp_all add: demo_settings_def)

lemma demo_reads:
  "raw_value (co2_read demo_inputs) = 412" "pm_read demo_inputs = Failed 0"
  "raw_value (pm_read demo_inputs) = 0" "raw_value (sht_read demo_inputs) = (22.5, 40)"
  by (simp_all add: demo_inputs_def)

lemma String_int_values: "String_int 0 = ''0''" "String_int 412 = ''412''" "String_int 40 = ''40''"
  by (simp_all add: String_int_def digits_of.simps digit_char_def)

lemma String_hex_abcdef:
  "String_hex (unat (0xABCDEF :: 32 word)) = ''abcdef''" "String_hex 11259375 = ''abcdef''"
  by (simp_all add: String_hex_def digits_of.simps digit_char_def)

lemma demo_publish_due_sampled:
  "publish_due demo_settings demo_inputs (sample demo_settings demo_inputs (setup_device chip))"
  using demo_publish_due[of chip] by (simp add: publish_due_def sample_keeps)

lemma pm25toAQI_0: "pm25toAQI 0 = 0"
  by (simp add: aqi_eval)

text \<open>
  Claim C3, as stated: a reading whose read fails is marked absent, and is neither shown as
  a placeholder zero nor published. On the concrete device the read of the particle sensor
  fails and the driver hands back 0: the display line reads \<open>PM2: 0\<close>, the index line
  \<open>AQI:  0\<close>, and the next publish tick sends the payload \<open>0\<close> on the pm25 topic.
\<close>

theorem failed_read_shown_and_published_counterexample:
  "pm_read demo_inputs = Failed 0 \<and>
   ln4 (sample demo_settings demo_inputs (setup_device 0xABCDEF)) = ''PM2: 0'' \<and>
   ln3 (sample demo_settings demo_inputs (setup_device 0xABCDEF)) = ''AQI:  0'' \<and>
   publishes (trace (publish demo_settings demo_inputs
       (sample demo_settings demo_inputs (setup_device 0xABCDEF))))
     = [(''airgradient/abcdef/co2'', ''412'', True), (''airgradient/abcdef/aqi'', ''0'', True),
        (''airgradient/abcdef/pm25'', ''0'', True), (''airgradient/abcdef/humidity'', ''40'', True),
        (''airgradient/abcdef/temperature'', ''72.50'', True)]"
proof -
  let ?s = "sample demo_settings demo_inputs (setup_device 0xABCDEF)"
  note d = demo_sample_due[of "0xABCDEF"]
  have p: "topic_prefix ?s = ''airgradient/abcdef/''"
    by (simp add: sample_prefix[OF d] demo_flags deviceid_setup String_hex_abcdef)
  have t: "publishes (trace ?s) = []"
    by (simp add: sample_trace d trace_setup publishes_append sensor_reads_def demo_flags)
  have q: "publishes (trace (publish demo_settings demo_inputs ?s))
      = publishes (trace ?s) @ map (request_of demo_settings ?s) (metrics demo_settings)"
    by (rule publish_requests[OF demo_publish_due_sampled])
  have f: "String_float demo_settings (Temperature ?s) = ''72.50''"
    by (simp add: demo_settings_def)
  show ?thesis
    by (simp add: q t p f metrics_def request_of_def payload_of_def demo_flags demo_reads
        sample_CO2_fields[OF d] sample_PM_fields[OF d] sample_SHT_fields[OF d]
        String_int_values pm25toAQI_0 toCharArray_def)
qed

text \<open>
  Claim C3, amended. On every sample tick each enabled sensor is read exactly once, with no
  retry within the tick and no failure path. The code has no absent reading: the value
  the driver call hands back, also from a read that failed or timed out inside the
  driver, is stored, shown on the sensor's display line, and sent as the payload of its
  topic by the next publish tick.
\<close>

theorem sample_tick_keeps_what_the_driver_returns:
  "sample_due inp st \<longrightarrow>
   reads (trace (sample cfg inp st)) = reads (trace st) @ sensor_reads cfg \<and>
   (hasCO2 cfg \<longrightarrow>
      CO2 (sample cfg inp st) = raw_value (co2_read inp) \<and>
      ln5 (sample cfg inp st) = ''CO2: '' @ String_int (raw_value (co2_read inp))) \<and>
   (hasPM cfg \<longrightarrow>
      PM2 (sample cfg inp st) = raw_value (pm_read inp) \<and>
      AQI (sample cfg inp st) = pm25toAQI (raw_value (pm_read inp)) \<and>
      ln3 (sample cfg inp st) = ''AQI:  '' @ String_int (pm25toAQI (raw_value (pm_read inp))) \<and>
      ln4 (sample cfg inp st) = ''PM2: '' @ String_int (raw_value (pm_read inp))) \<and>
   (hasSHT cfg \<longrightarrow>
      Humidity (sample cfg inp st) = snd (raw_value (sht_read inp)) \<and>
      ln2 (sample cfg inp st) = ''HMD: '' @ String_int (snd (raw_value (sht_read inp))) @ ''%'') \<and>
   (publish_due cfg inp2 (sample cfg inp st) \<longrightarrow>
      publishes (trace (publish cfg inp2 (sample cfg inp st)))
        = publishes (trace (sample cfg inp st))
          @ map (request_of cfg (sample cfg inp st)) (metrics cfg))"
proof (intro impI conjI)
  assume d: "sample_due inp st"
  show "reads (trace (sample cfg inp st)) = reads (trace st) @ sensor_reads cfg"
    by (rule sample_reads[OF d])
  { assume c: "hasCO2 cfg"
    show "CO2 (sample cfg inp st) = raw_value (co2_read inp)"
      by (rule sample_CO2_fields[OF d c])
    show "ln5 (sample cfg inp st) = ''CO2: '' @ String_int (raw_value (co2_read inp))"
      by (rule sample_CO2_fields[OF d c]) }
  { assume p: "hasPM cfg"
    show "PM2 (sample cfg inp st) = raw_value (pm_read inp)"
      by (rule sample_PM_fields[OF d p])
    show "AQI (sample cfg inp st) = pm25toAQI (raw_value (pm_read inp))"
      by (rule sample_PM_fields[OF d p])
    show "ln3 (sample cfg inp st) = ''AQI:  '' @ String_int (pm25toAQI (raw_value (pm_read inp)))"
      by (rule sample_PM_fields[OF d p])
    show "ln4 (sample cfg inp st) = ''PM2: '' @ String_int (raw_value (pm_read inp))"
      by (rule sample_PM_fields[OF d p]) }
  { assume s: "hasSHT cfg"
    show "Humidity (sample cfg inp st) = snd (raw_value (sht_read inp))"
      by (rule sample_SHT_fields[OF d s])
    show "ln2 (sample cfg inp st) = ''HMD: '' @ String_int (snd (raw_value (sht_read inp))) @ ''%''"
      by (rule sample_SHT_fields[OF d s]) }
  { assume q: "publish_due cfg inp2 (sample cfg inp st)"
    show "publishes (trace (publish cfg inp2 (sample cfg inp st)))
        = publishes (trace (sample cfg inp st))
          @ map (request_of cfg (sample cfg inp st)) (metrics cfg)"
      by (rule publish_requests[OF q]) }
qed

theorem sample_tick_keeps_what_the_driver_returns_witness:
  "sample_due demo_inputs (setup_device 0xABCDEF) \<and> hasCO2 demo_settings \<and> hasPM demo_settings
   \<and> hasSHT demo_settings
   \<and> publish_due demo_settings demo_inputs
        (sample demo_settings demo_inputs (setup_device 0xABCDEF))
   \<and> pm_read demo_inputs = Failed 0
   \<and> reads (trace (sample demo_settings demo_inputs (setup_device 0xABCDEF)))
        = [ReadCO2, ReadPM, ReadSHT]
   \<and> PM2 (sample demo_settings demo_inputs (setup_device 0xABCDEF)) = 0
   \<and> ln4 (sample demo_settings demo_inputs (setup_device 0xABCDEF)) = ''PM2: 0''
   \<and> CO2 (sample demo_settings demo_inputs (setup_device 0xABCDEF)) = 412
   \<and> ln5 (sample demo_settings demo_inputs (setup_device 0xABCDEF)) = ''CO2: 412''
   \<and> Humidity (sample demo_settings demo_inputs (setup_device 0xABCDEF)) = 40
   \<and> ln2 (sample demo_settings demo_inputs (setup_device 0xABCDEF)) = ''HMD: 40%''
   \<and> publishes (trace (publish demo_settings demo_inputs
          (sample demo_settings demo_inputs (setup_device 0xABCDEF))))
        = publishes (trace (sample demo_settings demo_inputs (setup_device 0xABCDEF)))
          @ map (request_of demo_settings
                  (sample demo_settings demo_inputs (setup_device 0xABCDEF)))
              (metrics demo_settings)"
  using sample_tick_keeps_what_the_driver_returns[of demo_inputs "setup_device 0xABCDEF"
      demo_settings demo_inputs]
    demo_sample_due[of "0xABCDEF"] demo_publish_due_sampled[of "0xABCDEF"]
  by (simp add: demo_flags demo_reads String_int_values trace_setup sensor_reads_def)

subsection \<open>The CO2 topic\<close>

lemma co2_topic_fits:
  "toCharArray (''airgradient/'' @ String_hex (unat (chip :: 32 word)) @ ''/co2'') 64
     = ''airgradient/'' @ String_hex (unat chip) @ ''/co2''"
  using String_hex_chip_length[of chip] by (simp add: toCharArray_def)

text \<open>
  Claim C10. With CO2 enabled, the topic root \<open>airgradient\<close> and 412 the latest raw CO2
  reading, the publish tick publishes the topic \<open>airgradient/<deviceId>/co2\<close> with payload
  \<open>412\<close> and the retained flag set, first of all and once; it is the only publish of the
  tick when the other sensors are disabled. The device identifier is the chip
  identifier in lowercase hexadecimal.
\<close>

theorem co2_reading_published:
  "hasCO2 cfg \<and> mqtt_topic_root cfg = ''airgradient''
     \<and> deviceid st = deviceid (setup_device chip)
     \<and> sample_due inp st \<and> raw_value (co2_read inp) = 412
     \<and> publish_due cfg inp2 (sample cfg inp st) \<longrightarrow>
   deviceid st = String_hex (unat chip) \<and> is_lower_hex (String_hex (unat chip)) \<and>
   publishes (trace (publish cfg inp2 (sample cfg inp st)))
     = publishes (trace (sample cfg inp st))
       @ (''airgradient/'' @ String_hex (unat chip) @ ''/co2'', ''412'', True)
         # map (request_of cfg (sample cfg inp st)) (tl (metrics cfg)) \<and>
   tl (metrics cfg) = (if hasPM cfg then [''aqi'', ''pm25''] else [])
                    @ (if hasSHT cfg then [''humidity'', ''temperature''] else [])"
proof
  assume a: "hasCO2 cfg \<and> mqtt_topic_root cfg = ''airgradient''
     \<and> deviceid st = deviceid (setup_device chip)
     \<and> sample_due inp st \<and> raw_value (co2_read inp) = 412
     \<and> publish_due cfg inp2 (sample cfg inp st)"
  hence c: "hasCO2 cfg" and r: "mqtt_topic_root cfg = ''airgradient''"
    and i: "deviceid st = String_hex (unat chip)" and d: "sample_due inp st"
    and v: "raw_value (co2_read inp) = 412"
    and q: "publish_due cfg inp2 (sample cfg inp st)"
    by (simp_all add: deviceid_setup)
  have m: "metrics cfg = ''co2'' # tl (metrics cfg)"
    and t: "tl (metrics cfg) = (if hasPM cfg then [''aqi'', ''pm25''] else [])
                    @ (if hasSHT cfg then [''humidity'', ''temperature''] else [])"
    using c by (simp_all add: metrics_def)
  have p: "topic_prefix (sample cfg inp st) = ''airgradient/'' @ String_hex (unat chip) @ ''/''"
    by (simp add: sample_prefix[OF d] r i)
  have "request_of cfg (sample cfg inp st) ''co2''
      = (''airgradient/'' @ String_hex (unat chip) @ ''/co2'', ''412'', True)"
    using co2_topic_fits[of chip]
    by (simp add: request_of_def payload_of_def p sample_CO2_fields[OF d c] v String_int_values
        toCharArray_def)
  hence "publishes (trace (publish cfg inp2 (sample cfg inp st)))
     = publishes (trace (sample cfg inp st))
       @ (''airgradient/'' @ String_hex (unat chip) @ ''/co2'', ''412'', True)
         # map (request_of cfg (sample cfg inp st)) (tl (metrics cfg))"
    using publish_requests[OF q] by (subst (asm) m) simp
  with i t String_hex_lower[of "unat chip"]
  show "deviceid st = String_hex (unat chip) \<and> is_lower_hex (String_hex (unat chip)) \<and>
   publishes (trace (publish cfg inp2 (sample cfg inp st)))
     = publishes (trace (sample cfg inp st))
       @ (''airgradient/'' @ String_hex (unat chip) @ ''/co2'', ''412'', True)
         # map (request_of cfg (sample cfg inp st)) (tl (metrics cfg)) \<and>
   tl (metrics cfg) = (if hasPM cfg then [''aqi'', ''pm25''] else [])
                    @ (if hasSHT cfg then [''humidity'', ''temperature''] else [])"
    by simp
qed

theorem co2_reading_published_witness:
  "hasCO2 demo_settings \<and> mqtt_topic_root demo_settings = ''airgradient''
   \<and> sample_due demo_inputs (setup_device 0xABCDEF)
   \<and> raw_value (co2_read demo_inputs) = 412
   \<and> publish_due demo_settings demo_inputs
        (sample demo_settings demo_inputs (setup_device 0xABCDEF))
   \<and> deviceid (setup_device 0xABCDEF) = ''abcdef''
   \<and> is_lower_hex ''abcdef''
   \<and> hd (publishes (trace (publish demo_settings demo_inputs
        (sample demo_settings demo_inputs (setup_device 0xABCDEF)))))
      = (''airgradient/abcdef/co2'', ''412'', True)"
proof -
  have t: "publishes (trace (sample demo_settings demo_inputs (setup_device 0xABCDEF))) = []"
    by (simp add: sample_trace demo_sample_due trace_setup publishes_append sensor_reads_def
        demo_flags)
  show ?thesis
    using co2_reading_published[of demo_settings "setup_device 0xABCDEF" "0xABCDEF"
        demo_inputs demo_inputs]
      demo_sample_due[of "0xABCDEF"] demo_publish_due_sampled[of "0xABCDEF"]
    by (simp add: demo_flags demo_reads t String_hex_abcdef)
qed

subsection \<open>Disabled sensors\<close>

lemma link_event_silent: "link_event ev \<Longrightarrow> silent cfg ts ev"
  by (cases ev) simp_all

lemma reconnect_events:
  "reconnect conn atts st = Some st1 \<Longrightarrow>
     \<exists>evs. st1 = st\<lparr>trace := trace st @ evs\<rparr> \<and> list_all link_event evs"
proof (induction conn atts st rule: reconnect.induct)
  case (1 conn st)
  hence "st1 = st\<lparr>trace := trace st @ []\<rparr>" by (simp split: if_splits)
  thus ?case by (intro exI[of _ "[]"]) simp
next
  case (2 conn r ok rest st)
  show ?case
  proof (cases conn)
    case True
    with 2 have "st1 = st\<lparr>trace := trace st @ []\<rparr>" by simp
    thus ?thesis by (intro exI[of _ "[]"]) simp
  next
    case False
    define st2 where "st2 = (if ok then emit (Connect (client_id r) ok) st
              else emit (Delay 5000) (emit (Connect (client_id r) ok) st))"
    have r: "reconnect ok rest st2 = Some st1"
      using "2.prems" False unfolding reconnect_client_id st2_def by simp
    have "\<exists>evs. st1 = st2\<lparr>trace := trace st2 @ evs\<rparr> \<and> list_all link_event evs"
    proof (cases ok)
      case True
      thus ?thesis using "2.IH"(1)[OF False refl refl True] r
        by (simp add: st2_def client_id_def)
    next
      case no: False
      thus ?thesis using "2.IH"(2)[OF False refl refl no] r
        by (simp add: st2_def client_id_def)
    qed
    then obtain evs where e: "st1 = st2\<lparr>trace := trace st2 @ evs\<rparr>" "list_all link_event evs"
      by blast
    obtain pre where p: "st2 = st\<lparr>trace := trace st @ pre\<rparr>" "list_all link_event pre"
      by (cases ok) (auto simp: st2_def emit_def)
    have "st1 = st\<lparr>trace := trace st @ (pre @ evs)\<rparr>" using e(1) p(1) by simp
    moreover have "list_all link_event (pre @ evs)" using e(2) p(2) by simp
    ultimately show ?thesis by blast
  qed
qed

lemma supervise_events:
  assumes "supervise cfg inp st = Some st1"
  shows "\<exists>evs. st1 = st\<lparr>trace := trace st @ evs\<rparr> \<and> list_all link_event evs"
proof (cases "connectWIFI cfg \<and> sendMQTT cfg")
  case False
  with assms have "st1 = st\<lparr>trace := trace st @ []\<rparr>" by (auto simp: supervise_def)
  thus ?thesis by (intro exI[of _ "[]"]) simp
next
  case True
  then obtain st2 where s: "st1 = emit ClientLoop st2"
    and r: "(if \<not> link_up inp then reconnect False (attempts inp) st else Some st) = Some st2"
    using assms by (auto simp: supervise_def)
  have "\<exists>evs. st2 = st\<lparr>trace := trace st @ evs\<rparr> \<and> list_all link_event evs"
  proof (cases "link_up inp")
    case True
    with r have "st2 = st\<lparr>trace := trace st @ []\<rparr>" by simp
    thus ?thesis by (intro exI[of _ "[]"]) simp
  next
    case False
    with r show ?thesis by (intro reconnect_events[of False "attempts inp"]) simp
  qed
  then obtain evs where e: "st2 = st\<lparr>trace := trace st @ evs\<rparr>" "list_all link_event evs"
    by blast
  have "st1 = st\<lparr>trace := trace st @ (evs @ [ClientLoop])\<rparr>" using s e(1) by (simp add: emit_def)
  moreover have "list_all link_event (evs @ [ClientLoop])" using e(2) by simp
  ultimately show ?thesis by blast
qed

text \<open>The lines of the display, for the sensors that are disabled.\<close>

lemma sample_lines:
  assumes "silent cfg ts (Lcd (ln1 st) (ln2 st) (ln3 st) (ln4 st) (ln5 st))"
  shows "silent cfg ts (Lcd (ln1 (sample cfg inp st)) (ln2 (sample cfg inp st))
           (ln3 (sample cfg inp st)) (ln4 (sample cfg inp st)) (ln5 (sample cfg inp st)))"
  using assms by (auto simp: sample_defs split: prod.split)

lemma sample_lines_fresh:
  assumes "sample_due inp st"
  shows "silent cfg ts (Lcd (ln1 (sample cfg inp st)) (ln2 (sample cfg inp st))
           (ln3 (sample cfg inp st)) (ln4 (sample cfg inp st)) (ln5 (sample cfg inp st)))"
  using assms by (auto simp: sample_defs split: prod.split)

lemma sensor_reads_silent: "list_all (silent cfg ts) (sensor_reads cfg)"
  by (simp add: sensor_reads_def)

lemma sample_silent:
  "\<exists>evs. trace (sample cfg inp st) = trace st @ evs \<and> list_all (silent cfg ts) evs"
proof (cases "sample_due inp st")
  case True
  let ?l = "Lcd (ln1 (sample cfg inp st)) (ln2 (sample cfg inp st))
           (ln3 (sample cfg inp st)) (ln4 (sample cfg inp st)) (ln5 (sample cfg inp st))"
  have "trace (sample cfg inp st) = trace st @ (sensor_reads cfg @ [?l])"
    using True by (simp add: sample_trace)
  moreover have "list_all (silent cfg ts) (sensor_reads cfg @ [?l])"
    using sample_lines_fresh[OF True, of cfg ts] sensor_reads_silent[of cfg ts]
    by (simp del: silent.simps)
  ultimately show ?thesis by blast
next
  case False
  hence "trace (sample cfg inp st) = trace st @ []" by (simp add: sample_trace)
  thus ?thesis by (intro exI[of _ "[]"]) simp
qed

lemma sample_prefix_cases:
  "topic_prefix (sample cfg inp st) = topic_prefix st \<or>
   topic_prefix (sample cfg inp st) = mqtt_topic_root cfg @ ''/'' @ deviceid st @ ''/''"
  by (cases "sample_due inp st") (simp_all add: sample_prefix, simp add: sample_defs)

lemma publish_keeps:
  "deviceid (publish cfg inp st) = deviceid st"
  "topic_prefix (publish cfg inp st) = topic_prefix st"
  "ln1 (publish cfg inp st) = ln1 st" "ln2 (publish cfg inp st) = ln2 st"
  "ln3 (publish cfg inp st) = ln3 st" "ln4 (publish cfg inp st) = ln4 st"
  "ln5 (publish cfg inp st) = ln5 st"
  by (simp_all add: publish_def publish_CO2_def publish_PM_def publish_SHT_def
      client_publish_def emit_def)

lemma publish_silent:
  assumes "topic_prefix st = [] \<or> topic_prefix st = device_prefix cfg chip"
  shows "\<exists>evs. trace (publish cfg inp st) = trace st @ evs
            \<and> list_all (silent cfg (enabled_topics cfg chip)) evs"
proof -
  have m: "toCharArray (topic_prefix st @ m) 64 \<in> set (enabled_topics cfg chip)"
    if "m \<in> set (metrics cfg)" for m
    using assms that by (auto simp: enabled_topics_def)
  show ?thesis
    using m[of "''co2''"] m[of "''aqi''"] m[of "''pm25''"] m[of "''humidity''"]
      m[of "''temperature''"]
    by (simp add: publish_def publish_SHT_trace publish_PM_trace publish_CO2_trace
        publish_PM_fields publish_CO2_fields metrics_def)
qed

lemma loop_step:
  assumes l: "loop cfg inp st = Some st1"
    and i: "deviceid st = String_hex (unat chip)"
    and p: "topic_prefix st = [] \<or> topic_prefix st = device_prefix cfg chip"
    and s: "silent cfg [] (Lcd (ln1 st) (ln2 st) (ln3 st) (ln4 st) (ln5 st))"
  shows "deviceid st1 = String_hex (unat chip)"
    and "topic_prefix st1 = [] \<or> topic_prefix st1 = device_prefix cfg chip"
    and "silent cfg [] (Lcd (ln1 st1) (ln2 st1) (ln3 st1) (ln4 st1) (ln5 st1))"
    and "\<exists>evs. trace st1 = trace st @ evs \<and> list_all (silent cfg (enabled_topics cfg chip)) evs"
proof -
  obtain st0 where sv: "supervise cfg inp st = Some st0"
    and st1: "st1 = publish cfg inp (sample cfg inp st0)"
    using l by (auto simp: loop_def)
  obtain e0 where e0: "st0 = st\<lparr>trace := trace st @ e0\<rparr>" "list_all link_event e0"
    using supervise_events[OF sv] by blast
  have i0: "deviceid st0 = String_hex (unat chip)" using i e0(1) by simp
  have p0: "topic_prefix st0 = [] \<or> topic_prefix st0 = device_prefix cfg chip"
    using p e0(1) by simp
  have s0: "silent cfg [] (Lcd (ln1 st0) (ln2 st0) (ln3 st0) (ln4 st0) (ln5 st0))"
    using s e0(1) by simp
  let ?sa = "sample cfg inp st0"
  show "deviceid st1 = String_hex (unat chip)"
    by (simp add: st1 publish_keeps sample_keeps i0)
  have pa: "topic_prefix ?sa = [] \<or> topic_prefix ?sa = device_prefix cfg chip"
    using sample_prefix_cases[of cfg inp st0] p0 i0 by (auto simp: device_prefix_def)
  thus "topic_prefix st1 = [] \<or> topic_prefix st1 = device_prefix cfg chip"
    by (simp add: st1 publish_keeps)
  show "silent cfg [] (Lcd (ln1 st1) (ln2 st1) (ln3 st1) (ln4 st1) (ln5 st1))"
    using sample_lines[OF s0, of inp] by (simp add: st1 publish_keeps)
  obtain e1 where e1: "trace ?sa = trace st0 @ e1"
      "list_all (silent cfg (enabled_topics cfg chip)) e1"
    using sample_silent[of cfg inp st0] by blast
  obtain e2 where e2: "trace (publish cfg inp ?sa) = trace ?sa @ e2"
      "list_all (silent cfg (enabled_topics cfg chip)) e2"
    using publish_silent[OF pa, of inp] by blast
  have "list_all (silent cfg (enabled_topics cfg chip)) e0"
    using e0(2) by (induction e0) (auto intro: link_event_silent)
  hence "list_all (silent cfg (enabled_topics cfg chip)) (e0 @ e1 @ e2)"
    using e1(2) e2(2) by simp
  moreover have "trace st1 = trace st @ (e0 @ e1 @ e2)"
    using e0(1) e1(1) e2(1) by (simp add: st1)
  ultimately show "\<exists>evs. trace st1 = trace st @ evs
      \<and> list_all (silent cfg (enabled_topics cfg chip)) evs" by blast
qed

lemma run_steps:
  assumes "run cfg inps st = Some st1"
    and "deviceid st = String_hex (unat chip)"
    and "topic_prefix st = [] \<or> topic_prefix st = device_prefix cfg chip"
    and "silent cfg [] (Lcd (ln1 st) (ln2 st) (ln3 st) (ln4 st) (ln5 st))"
  shows "silent cfg [] (Lcd (ln1 st1) (ln2 st1) (ln3 st1) (ln4 st1) (ln5 st1)) \<and>
     (\<exists>evs. trace st1 = trace st @ evs \<and> list_all (silent cfg (enabled_topics cfg chip)) evs)"
  using assms
proof (induction inps arbitrary: st)
  case Nil
  hence "st1 = st" by simp
  thus ?case using Nil.prems(4) by (auto intro: exI[of _ "[]"])
next
  case (Cons inp inps)
  then obtain st2 where l: "loop cfg inp st = Some st2" and r: "run cfg inps st2 = Some st1"
    by (auto split: option.splits)
  note step = loop_step[OF l Cons.prems(2,3,4)]
  from Cons.IH[OF r step(1,2,3)]
  obtain e2 where a: "silent cfg [] (Lcd (ln1 st1) (ln2 st1) (ln3 st1) (ln4 st1) (ln5 st1))"
    and e2: "trace st1 = trace st2 @ e2" "list_all (silent cfg (enabled_topics cfg chip)) e2"
    by blast
  obtain e1 where e1: "trace st2 = trace st @ e1"
      "list_all (silent cfg (enabled_topics cfg chip)) e1"
    using step(4) by blast
  have "trace st1 = trace st @ (e1 @ e2)" using e1(1) e2(1) by simp
  moreover have "list_all (silent cfg (enabled_topics cfg chip)) (e1 @ e2)"
    using e1(2) e2(2) by simp
  ultimately show ?case using a by blast
qed

lemma setup_invariant:
  "deviceid (setup_device chip) = String_hex (unat chip)"
  "topic_prefix (setup_device chip) = []"
  "silent cfg [] (Lcd (ln1 (setup_device chip)) (ln2 (setup_device chip)) (ln3 (setup_device chip))
      (ln4 (setup_device chip)) (ln5 (setup_device chip)))"
  by (simp_all add: deviceid_setup) (simp_all add: setup_device_def initial_def lcd_def emit_def Let_def)

lemma silent_publishes:
  "list_all (silent cfg ts) evs \<Longrightarrow> list_all (\<lambda>q. fst q \<in> set ts) (publishes evs)"
  by (induction evs rule: publishes.induct) simp_all

lemma silent_renders_SHT:
  "list_all (silent cfg ts) evs \<Longrightarrow> \<not> hasSHT cfg \<Longrightarrow>
     list_all (\<lambda>(a, b, c, d, e). a = [] \<and> b = []) (renders evs) \<and> ReadSHT \<notin> set evs"
  by (induction evs rule: renders.induct) auto

lemma silent_renders_PM:
  "list_all (silent cfg ts) evs \<Longrightarrow> \<not> hasPM cfg \<Longrightarrow>
     list_all (\<lambda>(a, b, c, d, e). c = [] \<and> d = []) (renders evs) \<and> ReadPM \<notin> set evs"
  by (induction evs rule: renders.induct) auto

lemma silent_renders_CO2:
  "list_all (silent cfg ts) evs \<Longrightarrow> \<not> hasCO2 cfg \<Longrightarrow>
     list_all (\<lambda>(a, b, c, d, e). e = []) (renders evs) \<and> ReadCO2 \<notin> set evs"
  by (induction evs rule: renders.induct) auto

lemma device_prefix_slash: "CHR ''/'' \<in> set (device_prefix cfg chip)"
  by (simp add: device_prefix_def)

lemma metrics_shape:
  assumes "m \<in> set (metrics cfg)" shows "length m \<le> 11" and "CHR ''/'' \<notin> set m"
proof -
  have "m = ''co2'' \<or> m = ''aqi'' \<or> m = ''pm25'' \<or> m = ''humidity'' \<or> m = ''temperature''"
    using assms unfolding metrics_def by (auto split: if_splits)
  thus "length m \<le> 11" and "CHR ''/'' \<notin> set m" by (elim disjE; simp)+
qed

lemma metric_names:
  "m \<in> set (metrics cfg) \<Longrightarrow>
     m = ''co2'' \<or> m = ''aqi'' \<or> m = ''pm25'' \<or> m = ''humidity'' \<or> m = ''temperature''"
  unfolding metrics_def by (auto split: if_splits)

lemma metric_first_letter:
  assumes "m = ''co2'' \<or> m = ''aqi'' \<or> m = ''pm25'' \<or> m = ''humidity'' \<or> m = ''temperature''"
    and "m' = ''co2'' \<or> m' = ''aqi'' \<or> m' = ''pm25'' \<or> m' = ''humidity'' \<or> m' = ''temperature''"
    and "hd m = hd m'"
  shows "m = m'"
  using assms by (elim disjE; simp)

lemma disabled_topic_not_enabled:
  assumes name: "m' = ''co2'' \<or> m' = ''aqi'' \<or> m' = ''pm25'' \<or> m' = ''humidity''
                 \<or> m' = ''temperature''"
    and off: "m' \<notin> set (metrics cfg)"
  shows "device_prefix cfg chip @ m' \<notin> set (enabled_topics cfg chip)"
proof
  let ?P = "device_prefix cfg chip"
  assume "?P @ m' \<in> set (enabled_topics cfg chip)"
  then obtain m where m: "m \<in> set (metrics cfg)"
    and e: "?P @ m' = toCharArray m 64 \<or> ?P @ m' = toCharArray (?P @ m) 64"
    unfolding enabled_topics_def by auto
  note s = metrics_shape[OF m]
  have ne: "m' \<noteq> []" "m \<noteq> []" using name metric_names[OF m] by auto
  from e show False
  proof
    assume "?P @ m' = toCharArray m 64"
    hence "set (?P @ m') = set m" using s(1) by (simp add: toCharArray_def)
    thus False using device_prefix_slash[of cfg chip] s(2) by auto
  next
    assume a: "?P @ m' = toCharArray (?P @ m) 64"
    hence t: "?P @ m' = take 63 ?P @ take (63 - length ?P) m" by (simp add: toCharArray_def)
    have "length (?P @ m') \<le> 63" by (subst a) (simp add: toCharArray_def)
    hence "length ?P < 63" using ne(1) by (cases m') auto
    hence p: "take 63 ?P = ?P" and k: "0 < 63 - length ?P" by simp_all
    from t have "m' = take (63 - length ?P) m" unfolding p by simp
    hence "hd m' = hd m" using k ne(2) by (cases m) (auto simp: take_Cons')
    hence "m = m'" using metric_first_letter[OF metric_names[OF m] name] by simp
    thus False using m off by simp
  qed
qed

lemma run_silent_from:
  assumes "run cfg inps ((setup_device chip)\<lparr>trace := tr\<rparr>) = Some st"
  shows "silent cfg [] (Lcd (ln1 st) (ln2 st) (ln3 st) (ln4 st) (ln5 st))"
    and "\<exists>evs. trace st = tr @ evs \<and> list_all (silent cfg (enabled_topics cfg chip)) evs"
proof -
  let ?s0 = "(setup_device chip)\<lparr>trace := tr\<rparr>"
  have i: "deviceid ?s0 = String_hex (unat chip)" by (simp add: setup_invariant(1))
  have p: "topic_prefix ?s0 = [] \<or> topic_prefix ?s0 = device_prefix cfg chip"
    by (simp add: setup_invariant(2))
  have l: "silent cfg [] (Lcd (ln1 ?s0) (ln2 ?s0) (ln3 ?s0) (ln4 ?s0) (ln5 ?s0))"
    using setup_invariant(3)[of cfg chip] by simp
  from run_steps[OF assms i p l]
  show "silent cfg [] (Lcd (ln1 st) (ln2 st) (ln3 st) (ln4 st) (ln5 st))"
    and "\<exists>evs. trace st = tr @ evs \<and> list_all (silent cfg (enabled_topics cfg chip)) evs"
    by simp_all
qed

lemma publishes_avoid:
  assumes "list_all (\<lambda>q. fst q \<in> set ts) qs" "a \<notin> set ts" "b \<notin> set ts"
  shows "list_all (\<lambda>q. fst q \<noteq> a \<and> fst q \<noteq> b) qs"
  using assms by (induction qs) auto

lemma metrics_off:
  "\<not> hasSHT cfg \<Longrightarrow> ''humidity'' \<notin> set (metrics cfg) \<and> ''temperature'' \<notin> set (metrics cfg)"
  "\<not> hasPM cfg \<Longrightarrow> ''aqi'' \<notin> set (metrics cfg) \<and> ''pm25'' \<notin> set (metrics cfg)"
  "\<not> hasCO2 cfg \<Longrightarrow> ''co2'' \<notin> set (metrics cfg)"
  by (simp_all add: metrics_def)

lemma run_without_SHT:
  assumes r: "run cfg inps ((setup_device chip)\<lparr>trace := tr\<rparr>) = Some st"
    and off: "\<not> hasSHT cfg"
  shows "\<exists>evs. trace st = tr @ evs \<and>
      ln1 st = [] \<and> ln2 st = [] \<and>
      list_all (\<lambda>(a, b, c, d, e). a = [] \<and> b = []) (renders evs) \<and>
      ReadSHT \<notin> set evs \<and>
      list_all (\<lambda>q. fst q \<in> set (enabled_topics cfg chip)) (publishes evs) \<and>
      list_all (\<lambda>q. fst q \<noteq> device_prefix cfg chip @ ''humidity''
                  \<and> fst q \<noteq> device_prefix cfg chip @ ''temperature'') (publishes evs)"
proof -
  obtain evs where t: "trace st = tr @ evs"
    and s: "list_all (silent cfg (enabled_topics cfg chip)) evs"
    using run_silent_from(2)[OF r] by blast
  have l: "ln1 st = [] \<and> ln2 st = []" using run_silent_from(1)[OF r] off by simp
  note p = silent_publishes[OF s]
  have "device_prefix cfg chip @ ''humidity'' \<notin> set (enabled_topics cfg chip)"
    "device_prefix cfg chip @ ''temperature'' \<notin> set (enabled_topics cfg chip)"
    using metrics_off(1)[OF off] by (simp_all add: disabled_topic_not_enabled)
  from publishes_avoid[OF p this] t l silent_renders_SHT[OF s off] p show ?thesis by blast
qed

lemma run_without_PM:
  assumes r: "run cfg inps ((setup_device chip)\<lparr>trace := tr\<rparr>) = Some st"
    and off: "\<not> hasPM cfg"
  shows "\<exists>evs. trace st = tr @ evs \<and>
      ln3 st = [] \<and> ln4 st = [] \<and>
      list_all (\<lambda>(a, b, c, d, e). c = [] \<and> d = []) (renders evs) \<and>
      ReadPM \<notin> set evs \<and>
      list_all (\<lambda>q. fst q \<in> set (enabled_topics cfg chip)) (publishes evs) \<and>
      list_all (\<lambda>q. fst q \<noteq> device_prefix cfg chip @ ''aqi''
                  \<and> fst q \<noteq> device_prefix cfg chip @ ''pm25'') (publishes evs)"
proof -
  obtain evs where t: "trace st = tr @ evs"
    and s: "list_all (silent cfg (enabled_topics cfg chip)) evs"
    using run_silent_from(2)[OF r] by blast
  have l: "ln3 st = [] \<and> ln4 st = []" using run_silent_from(1)[OF r] off by simp
  note p = silent_publishes[OF s]
  have "device_prefix cfg chip @ ''aqi'' \<notin> set (enabled_topics cfg chip)"
    "device_prefix cfg chip @ ''pm25'' \<notin> set (enabled_topics cfg chip)"
    using metrics_off(2)[OF off] by (simp_all add: disabled_topic_not_enabled)
  from publishes_avoid[OF p this] t l silent_renders_PM[OF s off] p show ?thesis by blast
qed

lemma run_without_CO2:
  assumes r: "run cfg inps ((setup_device chip)\<lparr>trace := tr\<rparr>) = Some st"
    and off: "\<not> hasCO2 cfg"
  shows "\<exists>evs. trace st = tr @ evs \<and>
      ln5 st = [] \<and>
      list_all (\<lambda>(a, b, c, d, e). e = []) (renders evs) \<and>
      ReadCO2 \<notin> set evs \<and>
      list_all (\<lambda>q. fst q \<in> set (enabled_topics cfg chip)) (publishes evs) \<and>
      list_all (\<lambda>q. fst q \<noteq> device_prefix cfg chip @ ''co2'') (publishes evs)"
proof -
  obtain evs where t: "trace st = tr @ evs"
    and s: "list_all (silent cfg (enabled_topics cfg chip)) evs"
    using run_silent_from(2)[OF r] by blast
  have l: "ln5 st = []" using run_silent_from(1)[OF r] off by simp
  note p = silent_publishes[OF s]
  have n: "device_prefix cfg chip @ ''co2'' \<notin> set (enabled_topics cfg chip)"
    using metrics_off(3)[OF off] by (simp add: disabled_topic_not_enabled)
  from publishes_avoid[OF p n n] have "list_all (\<lambda>q. fst q \<noteq> device_prefix cfg chip @ ''co2'')
      (publishes evs)" by simp
  with t l silent_renders_CO2[OF s off] p show ?thesis by blast
qed

lemma setup_device_trace_id:
  "(setup_device chip)\<lparr>trace := trace (setup_device chip)\<rparr> = setup_device chip"
  by simp

text \<open>
  Claim C6. In every execution, if the temperature and humidity sensor is disabled, the
  temperature and humidity lines are the empty string in the globals and in everything
  the loop renders, the sensor is never read, every topic published is a topic of an
  enabled sensor, and the humidity and temperature topics of the device,
  \<open><root>/<deviceId>/humidity\<close> and \<open><root>/<deviceId>/temperature\<close>, are never published,
  whatever the topic root. The same holds for the particle sensor with the AQI and PM2
  lines and the aqi and pm25 topics, and for the CO2 sensor with the CO2 line and the co2
  topic.
\<close>

theorem disabled_sensors_silent:
  "(run cfg1 inps1 (setup_device chip1) = Some st1 \<and> \<not> hasSHT cfg1 \<longrightarrow>
      (\<exists>evs. trace st1 = trace (setup_device chip1) @ evs \<and>
         ln1 st1 = [] \<and> ln2 st1 = [] \<and>
         list_all (\<lambda>(a, b, c, d, e). a = [] \<and> b = []) (renders evs) \<and>
         ReadSHT \<notin> set evs \<and>
         list_all (\<lambda>q. fst q \<in> set (enabled_topics cfg1 chip1)) (publishes evs) \<and>
         list_all (\<lambda>q. fst q \<noteq> device_prefix cfg1 chip1 @ ''humidity''
                     \<and> fst q \<noteq> device_prefix cfg1 chip1 @ ''temperature'') (publishes evs))) \<and>
   (run cfg2 inps2 (setup_device chip2) = Some st2 \<and> \<not> hasPM cfg2 \<longrightarrow>
      (\<exists>evs. trace st2 = trace (setup_device chip2) @ evs \<and>
         ln3 st2 = [] \<and> ln4 st2 = [] \<and>
         list_all (\<lambda>(a, b, c, d, e). c = [] \<and> d = []) (renders evs) \<and>
         ReadPM \<notin> set evs \<and>
         list_all (\<lambda>q. fst q \<in> set (enabled_topics cfg2 chip2)) (publishes evs) \<and>
         list_all (\<lambda>q. fst q \<noteq> device_prefix cfg2 chip2 @ ''aqi''
                     \<and> fst q \<noteq> device_prefix cfg2 chip2 @ ''pm25'') (publishes evs))) \<and>
   (run cfg3 inps3 (setup_device chip3) = Some st3 \<and> \<not> hasCO2 cfg3 \<longrightarrow>
      (\<exists>evs. trace st3 = trace (setup_device chip3) @ evs \<and>
         ln5 st3 = [] \<and>
         list_all (\<lambda>(a, b, c, d, e). e = []) (renders evs) \<and>
         ReadCO2 \<notin> set evs \<and>
         list_all (\<lambda>q. fst q \<in> set (enabled_topics cfg3 chip3)) (publishes evs) \<and>
         list_all (\<lambda>q. fst q \<noteq> device_prefix cfg3 chip3 @ ''co2'') (publishes evs)))"
  using run_without_SHT[where cfg = cfg1 and inps = inps1 and chip = chip1
      and tr = "trace (setup_device chip1)" and st = st1]
    run_without_PM[where cfg = cfg2 and inps = inps2 and chip = chip2
      and tr = "trace (setup_device chip2)" and st = st2]
    run_without_CO2[where cfg = cfg3 and inps = inps3 and chip = chip3
      and tr = "trace (setup_device chip3)" and st = st3]
  unfolding setup_device_trace_id by blast

theorem disabled_sensors_silent_witness:
  "(\<exists>st evs. run (demo_settings\<lparr>hasSHT := False\<rparr>) [demo_inputs] (setup_device 0xABCDEF) = Some st
      \<and> trace st = trace (setup_device 0xABCDEF) @ evs
      \<and> ln1 st = [] \<and> ln2 st = []
      \<and> list_all (\<lambda>(a, b, c, d, e). a = [] \<and> b = []) (renders evs)
      \<and> ReadSHT \<notin> set evs
      \<and> list_all (\<lambda>q. fst q \<noteq> ''airgradient/abcdef/humidity''
                     \<and> fst q \<noteq> ''airgradient/abcdef/temperature'') (publishes evs)) \<and>
   (\<exists>st evs. run (demo_settings\<lparr>hasPM := False\<rparr>) [demo_inputs] (setup_device 0xABCDEF) = Some st
      \<and> trace st = trace (setup_device 0xABCDEF) @ evs
      \<and> ln3 st = [] \<and> ln4 st = []
      \<and> list_all (\<lambda>(a, b, c, d, e). c = [] \<and> d = []) (renders evs)
      \<and> ReadPM \<notin> set evs
      \<and> list_all (\<lambda>q. fst q \<noteq> ''airgradient/abcdef/aqi''
                     \<and> fst q \<noteq> ''airgradient/abcdef/pm25'') (publishes evs)) \<and>
   (\<exists>st evs. run (demo_settings\<lparr>hasCO2 := False\<rparr>) [demo_inputs] (setup_device 0xABCDEF) = Some st
      \<and> trace st = trace (setup_device 0xABCDEF) @ evs
      \<and> ln5 st = []
      \<and> list_all (\<lambda>(a, b, c, d, e). e = []) (renders evs)
      \<and> ReadCO2 \<notin> set evs
      \<and> list_all (\<lambda>q. fst q \<noteq> ''airgradient/abcdef/co2'') (publishes evs))"
proof -
  let ?A = "demo_settings\<lparr>hasSHT := False\<rparr>"
  let ?B = "demo_settings\<lparr>hasPM := False\<rparr>"
  let ?C = "demo_settings\<lparr>hasCO2 := False\<rparr>"
  obtain sa where a: "run ?A [demo_inputs] (setup_device 0xABCDEF) = Some sa"
    using demo_run[of ?A "0xABCDEF"] by (auto simp: demo_settings_def)
  obtain sb where b: "run ?B [demo_inputs] (setup_device 0xABCDEF) = Some sb"
    using demo_run[of ?B "0xABCDEF"] by (auto simp: demo_settings_def)
  obtain sc where c: "run ?C [demo_inputs] (setup_device 0xABCDEF) = Some sc"
    using demo_run[of ?C "0xABCDEF"] by (auto simp: demo_settings_def)
  have f: "\<not> hasSHT ?A" "\<not> hasPM ?B" "\<not> hasCO2 ?C"
    "device_prefix ?A 0xABCDEF = ''airgradient/abcdef/''"
    "device_prefix ?B 0xABCDEF = ''airgradient/abcdef/''"
    "device_prefix ?C 0xABCDEF = ''airgradient/abcdef/''"
    by (simp_all add: demo_settings_def device_prefix_def String_hex_abcdef)
  from disabled_sensors_silent[of ?A "[demo_inputs]" "0xABCDEF" sa
      ?B "[demo_inputs]" "0xABCDEF" sb ?C "[demo_inputs]" "0xABCDEF" sc] a b c f
  show ?thesis by (simp del: run.simps) blast
qed


subsection \<open>The whole of setup()\<close>

lemma wifi_wait_trace:
  "wifi_wait ws st = Some st1 \<Longrightarrow> \<exists>evs. st1 = st\<lparr>trace := trace st @ evs\<rparr>"
proof (induction ws arbitrary: st)
  case Nil thus ?case by simp
next
  case (Cons up rest)
  show ?case
  proof (cases up)
    case True
    with Cons.prems have "st1 = st\<lparr>trace := trace st @ []\<rparr>" by simp
    thus ?thesis by blast
  next
    case False
    with Cons.prems have "wifi_wait rest (emit (Delay 500) st) = Some st1" by simp
    from Cons.IH[OF this] obtain evs
      where "st1 = (emit (Delay 500) st)\<lparr>trace := trace (emit (Delay 500) st) @ evs\<rparr>" by blast
    hence "st1 = st\<lparr>trace := trace st @ (Delay 500 # evs)\<rparr>" by (simp add: emit_def)
    thus ?thesis by blast
  qed
qed

lemma setupWiFi_trace:
  assumes "setupWiFi net st = Some st1"
  shows "\<exists>evs. st1 = st\<lparr>trace := trace st @ evs\<rparr>"
proof -
  let ?s1 = "lcd ''Initializing'' ''WiFi:'' (wifi_ssid net) [] [] (emit (Delay 3000) st)"
  obtain st2 where w: "wifi_wait (wifi_status net) ?s1 = Some st2"
    using assms by (auto simp: setupWiFi_def Let_def split: option.splits)
  obtain e2 where e2: "st2 = ?s1\<lparr>trace := trace ?s1 @ e2\<rparr>"
    using wifi_wait_trace[OF w] by blast
  obtain e3 where "st1 = st2\<lparr>trace := trace st2 @ e3\<rparr>"
    using assms w by (auto simp: setupWiFi_def Let_def lcd_def emit_def split: prod.splits)
  hence "st1 = st\<lparr>trace := trace st @
       ([Delay 3000, Lcd ''Initializing'' ''WiFi:'' (wifi_ssid net) [] []] @ e2 @ e3)\<rparr>"
    using e2 by (simp add: lcd_def emit_def)
  thus ?thesis by blast
qed

lemma setup_arduino_globals:
  assumes "setup_arduino cfg net chip = Some st0"
  shows "\<exists>tr. st0 = (setup_device chip)\<lparr>trace := tr\<rparr>"
proof -
  let ?s = "lcd ''Initializing'' ''Device:'' (toCharArray (String_hex (unat chip)) 32) [] []
     ((emit (Delay 2000) initial)\<lparr>deviceid := toCharArray (String_hex (unat chip)) 32\<rparr>)"
  have s: "?s = (setup_device chip)\<lparr>trace := trace ?s\<rparr>"
    by (simp add: setup_device_def lcd_def emit_def initial_def Let_def)
  have u: "setup_arduino cfg net chip
      = map_option (emit (Delay 2000)) (if connectWIFI cfg then setupWiFi net ?s else Some ?s)"
    by (simp add: setup_arduino_def Let_def)
  obtain st1 where a: "(if connectWIFI cfg then setupWiFi net ?s else Some ?s) = Some st1"
    and b: "st0 = emit (Delay 2000) st1"
    using assms unfolding u by blast
  have "\<exists>evs. st1 = ?s\<lparr>trace := trace ?s @ evs\<rparr>"
  proof (cases "connectWIFI cfg")
    case True
    with a show ?thesis by (intro setupWiFi_trace[of net]) simp
  next
    case False
    with a have "st1 = ?s\<lparr>trace := trace ?s @ []\<rparr>" by simp
    thus ?thesis by blast
  qed
  then obtain evs where "st1 = ?s\<lparr>trace := trace ?s @ evs\<rparr>" by blast
  hence "st0 = ?s\<lparr>trace := trace ?s @ evs @ [Delay 2000]\<rparr>" using b by (simp add: emit_def)
  hence "st0 = (setup_device chip)\<lparr>trace := trace ?s @ evs @ [Delay 2000]\<rparr>"
    by (subst (asm) s) simp
  thus ?thesis by blast
qed

text \<open>
  The same from the state the whole of \<^verbatim>\<open>setup()\<close> leaves, delays and WiFi bring-up
  included: what the loop adds to the trace after \<^verbatim>\<open>setup()\<close> has returned respects the
  enablement of the sensors.
\<close>

lemma disabled_SHT_silent_after_setup:
  assumes "setup_arduino cfg net chip = Some st0" "run cfg inps st0 = Some st" "\<not> hasSHT cfg"
  shows "\<exists>evs. trace st = trace st0 @ evs \<and>
      ln1 st = [] \<and> ln2 st = [] \<and>
      list_all (\<lambda>(a, b, c, d, e). a = [] \<and> b = []) (renders evs) \<and>
      ReadSHT \<notin> set evs \<and>
      list_all (\<lambda>q. fst q \<in> set (enabled_topics cfg chip)) (publishes evs) \<and>
      list_all (\<lambda>q. fst q \<noteq> device_prefix cfg chip @ ''humidity''
                  \<and> fst q \<noteq> device_prefix cfg chip @ ''temperature'') (publishes evs)"
proof -
  obtain tr where s: "st0 = (setup_device chip)\<lparr>trace := tr\<rparr>"
    using setup_arduino_globals[OF assms(1)] by blast
  hence "trace st0 = tr" by simp
  with run_without_SHT[OF assms(2)[unfolded s] assms(3)] show ?thesis by simp
qed

lemma disabled_PM_silent_after_setup:
  assumes "setup_arduino cfg net chip = Some st0" "run cfg inps st0 = Some st" "\<not> hasPM cfg"
  shows "\<exists>evs. trace st = trace st0 @ evs \<and>
      ln3 st = [] \<and> ln4 st = [] \<and>
      list_all (\<lambda>(a, b, c, d, e). c = [] \<and> d = []) (renders evs) \<and>
      ReadPM \<notin> set evs \<and>
      list_all (\<lambda>q. fst q \<in> set (enabled_topics cfg chip)) (publishes evs) \<and>
      list_all (\<lambda>q. fst q \<noteq> device_prefix cfg chip @ ''aqi''
                  \<and> fst q \<noteq> device_prefix cfg chip @ ''pm25'') (publishes evs)"
proof -
  obtain tr where s: "st0 = (setup_device chip)\<lparr>trace := tr\<rparr>"
    using setup_arduino_globals[OF assms(1)] by blast
  hence "trace st0 = tr" by simp
  with run_without_PM[OF assms(2)[unfolded s] assms(3)] show ?thesis by simp
qed

lemma disabled_CO2_silent_after_setup:
  assumes "setup_arduino cfg net chip = Some st0" "run cfg inps st0 = Some st" "\<not> hasCO2 cfg"
  shows "\<exists>evs. trace st = trace st0 @ evs \<and>
      ln5 st = [] \<and>
      list_all (\<lambda>(a, b, c, d, e). e = []) (renders evs) \<and>
      ReadCO2 \<notin> set evs \<and>
      list_all (\<lambda>q. fst q \<in> set (enabled_topics cfg chip)) (publishes evs) \<and>
      list_all (\<lambda>q. fst q \<noteq> device_prefix cfg chip @ ''co2'') (publishes evs)"
proof -
  obtain tr where s: "st0 = (setup_device chip)\<lparr>trace := tr\<rparr>"
    using setup_arduino_globals[OF assms(1)] by blast
  hence "trace st0 = tr" by simp
  with run_without_CO2[OF assms(2)[unfolded s] assms(3)] show ?thesis by simp
qed

lemma demo_setup_returns:
  "map_option trace (setup_arduino demo_settings demo_network 0xABCDEF) =
     Some [Delay 2000, Lcd ''Initializing'' ''Device:'' ''abcdef'' [] [], Delay 3000,
           Lcd ''Initializing'' ''WiFi:'' ''home'' [] [], Delay 500, Delay 500,
           Lcd ''192.'' ''168.'' ''1.'' ''20'' [], Delay 1000, Delay 2000]"
  by (simp add: setup_arduino_def setupWiFi_def demo_settings_def demo_network_def Let_def
      lcd_def emit_def initial_def toCharArray_def String_hex_abcdef String_int_def
      digits_of.simps digit_char_def)

end
